theory Spec2Isabelle
  imports Main "HOL-Library.Sublist"
begin

section \<open>The slash command of the Zoom plugin (server/command.go)\<close>

text \<open>
  A shallow embedding of \<^verbatim>\<open>server/command.go\<close>. Go strings are byte strings
  (\<^typ>\<open>string\<close>), a Go \<^verbatim>\<open>int\<close> is an \<^typ>\<open>int\<close> (meeting ids are only
  compared with the sentinel, never computed with), a run-time panic is a value of
  \<open>panic\<close>, and every call that leaves the file (the host API \<^verbatim>\<open>p.API\<close> and the
  methods of \<^verbatim>\<open>Plugin\<close> that other files define) is answered by a field of
  the record \<open>Plugin\<close> and written to a trace of \<open>call\<close>s, in call order.
\<close>

subsection \<open>Strings: \<^verbatim>\<open>strings.Fields\<close>, \<^verbatim>\<open>strings.Join\<close>, \<^verbatim>\<open>strings.ReplaceAll\<close>\<close>

text \<open>
  \<^verbatim>\<open>strings.Fields\<close> splits around runs of white space as \<^verbatim>\<open>unicode.IsSpace\<close>
  defines it. The white-space runes, in their UTF-8 encoding: the six ASCII ones,
  U+0085, U+00A0, U+1680, U+2000 to U+200A, U+2028, U+2029, U+202F, U+205F, U+3000.
  Each multi-byte encoding starts with a lead byte, which never occurs inside another
  rune's encoding, so looking for these byte sequences from left to right finds exactly
  the white-space runes Go decodes; any other byte belongs to a field.
\<close>

definition whiteSpace :: "string list" where
  "whiteSpace =
    [[CHR 0x09], [CHR 0x0A], [CHR 0x0B], [CHR 0x0C], [CHR 0x0D], [CHR 0x20],
     [CHR 0xC2, CHR 0x85], [CHR 0xC2, CHR 0xA0],
     [CHR 0xE1, CHR 0x9A, CHR 0x80],
     [CHR 0xE2, CHR 0x80, CHR 0x80], [CHR 0xE2, CHR 0x80, CHR 0x81],
     [CHR 0xE2, CHR 0x80, CHR 0x82], [CHR 0xE2, CHR 0x80, CHR 0x83],
     [CHR 0xE2, CHR 0x80, CHR 0x84], [CHR 0xE2, CHR 0x80, CHR 0x85],
     [CHR 0xE2, CHR 0x80, CHR 0x86], [CHR 0xE2, CHR 0x80, CHR 0x87],
     [CHR 0xE2, CHR 0x80, CHR 0x88], [CHR 0xE2, CHR 0x80, CHR 0x89],
     [CHR 0xE2, CHR 0x80, CHR 0x8A],
     [CHR 0xE2, CHR 0x80, CHR 0xA8], [CHR 0xE2, CHR 0x80, CHR 0xA9],
     [CHR 0xE2, CHR 0x80, CHR 0xAF],
     [CHR 0xE2, CHR 0x81, CHR 0x9F],
     [CHR 0xE3, CHR 0x80, CHR 0x80]]"

text \<open>The width in bytes of the white-space rune a string starts with; 0 when it starts
  with none.\<close>

definition spaceWidth :: "string \<Rightarrow> nat" where
  "spaceWidth s = (case find (\<lambda>w. prefix w s) whiteSpace of None \<Rightarrow> 0 | Some w \<Rightarrow> length w)"

text \<open>A byte that starts no white-space rune.\<close>

definition plainByte :: "char \<Rightarrow> bool" where
  "plainByte c = (c \<notin> set (map hd whiteSpace))"

definition flush :: "string \<Rightarrow> string list" where
  "flush cur = (if cur = [] then [] else [cur])"

text \<open>\<open>FieldsFrom cur s\<close>: the fields of \<open>s\<close>, the first one continuing the bytes
  \<open>cur\<close> read so far.\<close>

fun FieldsFrom :: "string \<Rightarrow> string \<Rightarrow> string list" where
  "FieldsFrom cur [] = flush cur"
| "FieldsFrom cur (c # cs) =
     (if 0 < spaceWidth (c # cs)
      then flush cur @ FieldsFrom [] (drop (spaceWidth (c # cs) - 1) cs)
      else FieldsFrom (cur @ [c]) cs)"

definition Fields :: "string \<Rightarrow> string list" where
  "Fields s = FieldsFrom [] s"

fun Join :: "string list \<Rightarrow> string \<Rightarrow> string" where
  "Join [] sep = []"
| "Join [x] sep = x"
| "Join (x # y # ys) sep = x @ sep @ Join (y # ys) sep"

text \<open>\<^verbatim>\<open>strings.ReplaceAll(s, old, new)\<close> for one-byte \<open>old\<close> and \<open>new\<close>, the only
  use the file makes of it.\<close>

definition ReplaceAll :: "string \<Rightarrow> char \<Rightarrow> char \<Rightarrow> string" where
  "ReplaceAll s old new = map (\<lambda>c. if c = old then new else c) s"

subsection \<open>Panics\<close>

datatype panic =
    IndexOutOfRange nat nat
  | SliceBoundsOutOfRange nat nat
  | NilPointerDereference

subsection \<open>Errors\<close>

text \<open>\<^verbatim>\<open>model.AppError\<close>, of which the file reads nothing; the string is its text.\<close>

datatype AppError = AppError string

text \<open>A Go \<^verbatim>\<open>error\<close>: made by \<^verbatim>\<open>errors.New\<close>, by \<^verbatim>\<open>errors.Wrap\<close>, or an
  \<^verbatim>\<open>*model.AppError\<close> returned as an \<^verbatim>\<open>error\<close>. A nil error is \<open>None\<close>.\<close>

datatype error =
    New string
  | Wrap error string
  | FromAppError AppError

fun Error :: "error \<Rightarrow> string" where
  "Error (New m) = m"
| "Error (Wrap e m) = m @ '': '' @ Error e"
| "Error (FromAppError (AppError m)) = m"

subsection \<open>Data\<close>

text \<open>\<^verbatim>\<open>model.User\<close>: its id, and what \<^verbatim>\<open>IsSystemAdmin()\<close> answers.\<close>

record User =
  user_Id :: string
  user_IsSystemAdmin :: bool

text \<open>\<^verbatim>\<open>zoom.User\<close>: the file reads its \<^verbatim>\<open>Pmi\<close> only.\<close>

record ZoomUser =
  zoom_Pmi :: int

text \<open>\<^verbatim>\<open>zoom.AuthError\<close>: the file returns its \<^verbatim>\<open>Message\<close> and \<^verbatim>\<open>Err\<close>.\<close>

record AuthError =
  auth_Message :: string
  auth_Err :: "error option"

record CommandArgs =
  args_UserId :: string
  args_ChannelId :: string
  args_RootId :: string
  args_Command :: string

record Preference =
  pref_UserId :: string
  pref_Category :: string
  pref_Name :: string
  pref_Value :: string

record configuration =
  EnableOAuth :: bool
  AccountLevelApp :: bool

text \<open>\<^verbatim>\<open>model.Config\<close>: the file reads \<^verbatim>\<open>ServiceSettings.SiteURL\<close>, a \<^verbatim>\<open>*string\<close>.\<close>

record ServiceSettings =
  SiteURL :: "string option"

record Config =
  ServiceSettings :: ServiceSettings

datatype Token = Token string

datatype OAuthUserInfo = OAuthUserInfo string

subsection \<open>Calls that leave the file\<close>

text \<open>
  One constructor for each call on \<^verbatim>\<open>p.API\<close> and on a method of \<^verbatim>\<open>Plugin\<close> that
  another file defines, with the arguments of the call. A run's trace is the list of
  its calls in the order they are made.
\<close>

datatype call =
    is_GetUser: Call_GetUser string
  | is_GetChannelMember: Call_GetChannelMember string string
  | is_LogWarn: Call_LogWarn string
  | is_GetConfig: Call_GetConfig
  | is_UpdatePreferencesForUser: Call_UpdatePreferencesForUser string "Preference list"
  | is_checkPreviousMessages: Call_checkPreviousMessages string
  | is_postConfirm: Call_postConfirm string string string string string string string
  | is_authenticateAndFetchZoomUser: Call_authenticateAndFetchZoomUser User
  | is_storeOAuthUserState: Call_storeOAuthUserState string string bool
  | is_getPMISettingData: Call_getPMISettingData string
  | is_askUserPMIMeeting: Call_askUserPMIMeeting string string
  | is_createMeetingWithoutPMI: Call_createMeetingWithoutPMI User ZoomUser string string
  | is_postMeeting: Call_postMeeting User int string string string
  | is_trackMeetingStart: Call_trackMeetingStart string string
  | is_getSuperuserToken: Call_getSuperuserToken
  | is_fetchOAuthUserInfo: Call_fetchOAuthUserInfo string string
  | is_removeSuperUserToken: Call_removeSuperUserToken
  | is_disconnectOAuthUser: Call_disconnectOAuthUser string
  | is_trackDisconnect: Call_trackDisconnect string

text \<open>
  The receiver \<^verbatim>\<open>p\<close>. Its fields are what the file reads of the plugin and what each
  call answers, as a function of the call's arguments: no path of the file makes the
  same call twice, so an answer that depends on earlier calls is covered. A Go result
  \<^verbatim>\<open>(value, err)\<close> is a pair with an \<open>error option\<close>; where the value is a pointer
  that the file dereferences only after it found the error nil
  (\<^verbatim>\<open>GetUser\<close>, \<^verbatim>\<open>authenticateAndFetchZoomUser\<close>), it is a sum. The last three fields
  stand for constants that other files declare: \<^verbatim>\<open>defaultMeetingTopic\<close>,
  \<^verbatim>\<open>zoomUserByMMID\<close>, and the format string \<^verbatim>\<open>zoom.OAuthPrompt\<close>, as the function
  \<^verbatim>\<open>fmt.Sprintf(zoom.OAuthPrompt, url)\<close> of \<open>url\<close>.
\<close>

record Plugin =
  configuration :: configuration
  OAuthEnabled :: bool
  GetUser :: "string \<Rightarrow> AppError + User"
  GetChannelMember :: "string \<Rightarrow> string \<Rightarrow> AppError option"
  GetConfig :: Config
  UpdatePreferencesForUser :: "string \<Rightarrow> Preference list \<Rightarrow> AppError option"
  checkPreviousMessages :: "string \<Rightarrow> bool \<times> string \<times> string \<times> string \<times> AppError option"
  authenticateAndFetchZoomUser :: "User \<Rightarrow> AuthError + ZoomUser"
  storeOAuthUserState :: "string \<Rightarrow> string \<Rightarrow> bool \<Rightarrow> AppError option"
  getPMISettingData :: "string \<Rightarrow> string \<times> AppError option"
  createMeetingWithoutPMI :: "User \<Rightarrow> ZoomUser \<Rightarrow> string \<Rightarrow> string \<Rightarrow> int \<times> error option"
  postMeeting :: "User \<Rightarrow> int \<Rightarrow> string \<Rightarrow> string \<Rightarrow> string \<Rightarrow> error option"
  getSuperuserToken :: "Token option \<times> error option"
  fetchOAuthUserInfo :: "string \<Rightarrow> string \<Rightarrow> OAuthUserInfo option \<times> error option"
  removeSuperUserToken :: "error option"
  disconnectOAuthUser :: "string \<Rightarrow> error option"
  defaultMeetingTopic :: string
  zoomUserByMMID :: string
  OAuthPrompt :: "string \<Rightarrow> string"

type_synonym response = "string \<times> error option"

subsection \<open>Constants of the file\<close>

definition starterText :: string where
  "starterText = ''###### Mattermost Zoom Plugin - Slash Command Help'' @ [CHR 0x0A]"

definition helpText :: string where
  "helpText = ''* |/zoom start| - Start a zoom meeting''"

definition oAuthHelpText :: string where
  "oAuthHelpText = ''* |/zoom disconnect| - Disconnect from zoom''"

definition settingHelpText :: string where
  "settingHelpText = ''* |/zoom setting| - Configure setting options''"

definition settingPMIHelpText :: string where
  "settingPMIHelpText =
     ''* |/zoom setting use_pmi [true/false/ask]| - '' @ [CHR 0x0A, CHR 0x09, CHR 0x09]
     @ ''enable / disable / undecide to use PMI to create meeting'' @ [CHR 0x0A, CHR 0x09]"

definition alreadyConnectedText :: string where "alreadyConnectedText = ''Already connected''"
definition zoomPreferenceCategory :: string where "zoomPreferenceCategory = ''plugin:zoom''"
definition zoomPMISettingName :: string where "zoomPMISettingName = ''use-pmi''"
definition zoomPMISettingValueAsk :: string where "zoomPMISettingValueAsk = ''ask''"

definition preferenceUpdateError :: string where
  "preferenceUpdateError = ''Cannot update preference in zoom setting''"

definition actionConnect :: string where "actionConnect = ''connect''"
definition actionStart :: string where "actionStart = ''start''"
definition actionDisconnect :: string where "actionDisconnect = ''disconnect''"
definition actionHelp :: string where "actionHelp = ''help''"

subsection \<open>Constants of other files\<close>

text \<open>Modelled from the spec: the constant \<^verbatim>\<open>trueString\<close> is declared in another file
  of the package; the specification's preference values are "true", "false", "ask"
  and the empty string.\<close>

definition trueString :: string where "trueString = ''true''"

text \<open>Modelled from the spec: the constant \<^verbatim>\<open>falseString\<close> is declared in another
  file of the package; see \<open>trueString\<close>.\<close>

definition falseString :: string where "falseString = ''false''"

text \<open>Modelled from the spec: the constant \<^verbatim>\<open>telemetryStartSourceCommand\<close> is
  declared in another file of the package; the specification tags the start event of
  a command with "command".\<close>

definition telemetryStartSourceCommand :: string where
  "telemetryStartSourceCommand = ''command''"

subsection \<open>parseCommand\<close>

text \<open>
  \<^verbatim>\<open>split[0]\<close> panics on an empty slice, and \<^verbatim>\<open>split[2:]\<close> panics when the slice
  has fewer than two elements; both checks are written out.
\<close>

definition parseCommand :: "string \<Rightarrow> panic + (string \<times> string \<times> string)" where
  "parseCommand rawCommand =
    (let split = Fields rawCommand in
     if length split \<le> 0 then Inl (IndexOutOfRange 0 (length split))
     else
       let cmd = split ! 0;
           action = (if length split > 1 then split ! 1 else [])
       in if action = actionStart
          then (if length split < 2 then Inl (SliceBoundsOutOfRange 2 (length split))
                else Inr (cmd, action, Join (drop 2 split) '' ''))
          else Inr (cmd, action, []))"

subsection \<open>canConnect\<close>

definition canConnect :: "Plugin \<Rightarrow> User \<Rightarrow> bool" where
  "canConnect p user =
     (OAuthEnabled p \<and> (\<not> AccountLevelApp (configuration p) \<or> user_IsSystemAdmin user))"

subsection \<open>runStartCommand\<close>

text \<open>
  The function in three parts: the guards (lines 127 to 148), the choice of the meeting
  (lines 149 to 165, \<open>runStartCommand_decide\<close>, which returns \<^verbatim>\<open>meetingID\<close> and
  \<^verbatim>\<open>createMeetingErr\<close>) and the post and the telemetry (lines 166 to 178,
  \<open>runStartCommand_post\<close>). Each part returns the calls it made.
\<close>

definition runStartCommand_decide ::
  "Plugin \<Rightarrow> CommandArgs \<Rightarrow> User \<Rightarrow> ZoomUser \<Rightarrow> (int \<times> error option) \<times> call list" where
  "runStartCommand_decide p args user zoomUser =
     (case getPMISettingData p (user_Id user) of
        (userPMISettingPref, None) \<Rightarrow>
          if userPMISettingPref = [] \<or> userPMISettingPref = zoomPMISettingValueAsk
          then ((- 1, None),
                [Call_getPMISettingData (user_Id user),
                 Call_askUserPMIMeeting (user_Id user) (args_ChannelId args)])
          else if userPMISettingPref = trueString
          then ((zoom_Pmi zoomUser, None), [Call_getPMISettingData (user_Id user)])
          else (createMeetingWithoutPMI p user zoomUser (args_ChannelId args)
                  (defaultMeetingTopic p),
                [Call_getPMISettingData (user_Id user),
                 Call_createMeetingWithoutPMI user zoomUser (args_ChannelId args)
                   (defaultMeetingTopic p)])
      | (userPMISettingPref, Some getUserPMISettingErr) \<Rightarrow>
          ((- 1, None),
           [Call_getPMISettingData (user_Id user),
            Call_askUserPMIMeeting (user_Id user) (args_ChannelId args)]))"

definition runStartCommand_post ::
  "Plugin \<Rightarrow> CommandArgs \<Rightarrow> User \<Rightarrow> int \<Rightarrow> error option \<Rightarrow> response \<times> call list" where
  "runStartCommand_post p args user meetingID createMeetingErr =
     (if meetingID = - 1 \<and> createMeetingErr = None then (([], None), [])
      else if meetingID = - 1 \<or> createMeetingErr \<noteq> None
      then (([], Some (New ''error while create new meeting'')), [])
      else
        (case postMeeting p user meetingID (args_ChannelId args) (args_RootId args)
                (defaultMeetingTopic p) of
           Some postMeetingErr \<Rightarrow>
             (([], Some postMeetingErr),
              [Call_postMeeting user meetingID (args_ChannelId args) (args_RootId args)
                 (defaultMeetingTopic p)])
         | None \<Rightarrow>
             (([], None),
              [Call_postMeeting user meetingID (args_ChannelId args) (args_RootId args)
                 (defaultMeetingTopic p),
               Call_trackMeetingStart (args_UserId args) telemetryStartSourceCommand])))"

definition runStartCommand ::
  "Plugin \<Rightarrow> CommandArgs \<Rightarrow> User \<Rightarrow> string \<Rightarrow> response \<times> call list" where
  "runStartCommand p args user topic =
     (case GetChannelMember p (args_ChannelId args) (user_Id user) of
        Some appErr \<Rightarrow>
          ((''We could not get channel members (channelId: '' @ args_ChannelId args @ '')'',
            None),
           [Call_GetChannelMember (args_ChannelId args) (user_Id user)])
      | None \<Rightarrow>
          (case checkPreviousMessages p (args_ChannelId args) of
             (recentMeeting, recentMeetingLink, creatorName, provider, Some appErr) \<Rightarrow>
               ((''Error checking previous messages'', None),
                [Call_GetChannelMember (args_ChannelId args) (user_Id user),
                 Call_checkPreviousMessages (args_ChannelId args)])
           | (recentMeeting, recentMeetingLink, creatorName, provider, None) \<Rightarrow>
               if recentMeeting
               then (([], None),
                     [Call_GetChannelMember (args_ChannelId args) (user_Id user),
                      Call_checkPreviousMessages (args_ChannelId args),
                      Call_postConfirm recentMeetingLink (args_ChannelId args) topic
                        (user_Id user) (args_RootId args) creatorName provider])
               else
                 (case authenticateAndFetchZoomUser p user of
                    Inl authErr \<Rightarrow>
                      ((auth_Message authErr, auth_Err authErr),
                       [Call_GetChannelMember (args_ChannelId args) (user_Id user),
                        Call_checkPreviousMessages (args_ChannelId args),
                        Call_authenticateAndFetchZoomUser user,
                        Call_storeOAuthUserState (user_Id user) (args_ChannelId args) False]
                       @ (case storeOAuthUserState p (user_Id user) (args_ChannelId args)
                                 False of
                            Some appErr \<Rightarrow> [Call_LogWarn ''failed to store user state'']
                          | None \<Rightarrow> []))
                  | Inr zoomUser \<Rightarrow>
                      (case runStartCommand_decide p args user zoomUser of
                         ((meetingID, createMeetingErr), decided) \<Rightarrow>
                           (case runStartCommand_post p args user meetingID
                                   createMeetingErr of
                              (r, posted) \<Rightarrow>
                                (r,
                                 [Call_GetChannelMember (args_ChannelId args) (user_Id user),
                                  Call_checkPreviousMessages (args_ChannelId args),
                                  Call_authenticateAndFetchZoomUser user]
                                 @ decided @ posted))))))"

subsection \<open>runConnectCommand\<close>

text \<open>\<^verbatim>\<open>*p.API.GetConfig().ServiceSettings.SiteURL\<close> dereferences a \<^verbatim>\<open>*string\<close>:
  a nil pointer panics.\<close>

definition runConnectCommand ::
  "Plugin \<Rightarrow> User \<Rightarrow> CommandArgs \<Rightarrow> (panic + response) \<times> call list" where
  "runConnectCommand p user extra =
     (if \<not> canConnect p user
      then (Inr (''Unknown action '' @ [CHR 0x60] @ ''connect'' @ [CHR 0x60], None), [])
      else
        (case SiteURL (ServiceSettings (GetConfig p)) of
           None \<Rightarrow> (Inl NilPointerDereference, [Call_GetConfig])
         | Some siteURL \<Rightarrow>
             if AccountLevelApp (configuration p)
             then
               (case getSuperuserToken p of
                  (token, err) \<Rightarrow>
                    if err = None \<and> token \<noteq> None
                    then (Inr (alreadyConnectedText, None),
                          [Call_GetConfig, Call_getSuperuserToken])
                    else
                      (case storeOAuthUserState p (user_Id user) (args_ChannelId extra)
                              True of
                         Some appErr \<Rightarrow>
                           (Inr ([], Some (Wrap (FromAppError appErr) ''cannot store state'')),
                            [Call_GetConfig, Call_getSuperuserToken,
                             Call_storeOAuthUserState (user_Id user) (args_ChannelId extra)
                               True])
                       | None \<Rightarrow>
                           (Inr (OAuthPrompt p siteURL, None),
                            [Call_GetConfig, Call_getSuperuserToken,
                             Call_storeOAuthUserState (user_Id user) (args_ChannelId extra)
                               True])))
             else
               (case fetchOAuthUserInfo p (zoomUserByMMID p) (user_Id user) of
                  (info, None) \<Rightarrow>
                    (Inr (alreadyConnectedText, None),
                     [Call_GetConfig, Call_fetchOAuthUserInfo (zoomUserByMMID p) (user_Id user)])
                | (info, Some err) \<Rightarrow>
                    (case storeOAuthUserState p (user_Id user) (args_ChannelId extra)
                            True of
                       Some appErr \<Rightarrow>
                         (Inr ([], Some (Wrap (FromAppError appErr) ''cannot store state'')),
                          [Call_GetConfig,
                           Call_fetchOAuthUserInfo (zoomUserByMMID p) (user_Id user),
                           Call_storeOAuthUserState (user_Id user) (args_ChannelId extra)
                             True])
                     | None \<Rightarrow>
                         (Inr (OAuthPrompt p siteURL, None),
                          [Call_GetConfig,
                           Call_fetchOAuthUserInfo (zoomUserByMMID p) (user_Id user),
                           Call_storeOAuthUserState (user_Id user) (args_ChannelId extra)
                             True])))))"

subsection \<open>runDisconnectCommand, runHelpCommand\<close>

definition runDisconnectCommand :: "Plugin \<Rightarrow> User \<Rightarrow> response \<times> call list" where
  "runDisconnectCommand p user =
     (if \<not> canConnect p user
      then ((''Unknown action '' @ [CHR 0x60] @ ''disconnect'' @ [CHR 0x60], None), [])
      else if AccountLevelApp (configuration p)
      then
        (case removeSuperUserToken p of
           Some err \<Rightarrow>
             ((''Error disconnecting, '' @ Error err, None), [Call_removeSuperUserToken])
         | None \<Rightarrow>
             ((''Successfully disconnected from Zoom.'', None), [Call_removeSuperUserToken]))
      else
        (case disconnectOAuthUser p (user_Id user) of
           Some err \<Rightarrow>
             ((''Could not disconnect OAuth from zoom, '' @ Error err, None),
              [Call_disconnectOAuthUser (user_Id user)])
         | None \<Rightarrow>
             ((''User disconnected from Zoom.'', None),
              [Call_disconnectOAuthUser (user_Id user), Call_trackDisconnect (user_Id user)])))"

definition runHelpCommand :: "Plugin \<Rightarrow> response" where
  "runHelpCommand p =
     (starterText @ ReplaceAll (helpText @ settingHelpText) CHR ''|'' (CHR 0x60)
        @ (if EnableOAuth (configuration p)
           then [CHR 0x0A] @ ReplaceAll oAuthHelpText CHR ''|'' (CHR 0x60)
           else []),
      None)"

subsection \<open>runSettingCommand, runPMISettingCommand\<close>

definition runPMISettingCommand :: "Plugin \<Rightarrow> string \<Rightarrow> User \<Rightarrow> response \<times> call list" where
  "runPMISettingCommand p usePMIValue user =
     (if usePMIValue = trueString \<or> usePMIValue = falseString
         \<or> usePMIValue = zoomPMISettingValueAsk
      then
        (case UpdatePreferencesForUser p (user_Id user)
                [\<lparr>pref_UserId = user_Id user, pref_Category = zoomPreferenceCategory,
                  pref_Name = zoomPMISettingName, pref_Value = usePMIValue\<rparr>] of
           Some appError \<Rightarrow>
             ((preferenceUpdateError, None),
              [Call_UpdatePreferencesForUser (user_Id user)
                 [\<lparr>pref_UserId = user_Id user, pref_Category = zoomPreferenceCategory,
                   pref_Name = zoomPMISettingName, pref_Value = usePMIValue\<rparr>]])
         | None \<Rightarrow>
             ((''Update successfully, use_pmi: '' @ usePMIValue, None),
              [Call_UpdatePreferencesForUser (user_Id user)
                 [\<lparr>pref_UserId = user_Id user, pref_Category = zoomPreferenceCategory,
                   pref_Name = zoomPMISettingName, pref_Value = usePMIValue\<rparr>]]))
      else ((''Unknown setting option '' @ usePMIValue, None), []))"

definition runSettingCommand :: "Plugin \<Rightarrow> string list \<Rightarrow> User \<Rightarrow> response \<times> call list" where
  "runSettingCommand p settingArgs user =
     (let settingAction = (if length settingArgs > 0 then settingArgs ! 0 else []) in
      if settingAction = ''use_pmi''
      then (if length settingArgs > 1
            then runPMISettingCommand p (settingArgs ! 1) user
            else ((''Set PMI option to '' @ [CHR 0x22] @ ''true'' @ [CHR 0x22] @ ''|''
                     @ [CHR 0x22] @ ''false'' @ [CHR 0x22] @ ''|''
                     @ [CHR 0x22] @ ''ask'' @ [CHR 0x22], None), []))
      else if settingAction = []
      then ((ReplaceAll (starterText @ settingPMIHelpText) CHR ''|'' (CHR 0x60), None), [])
      else ((''Unknown Action '' @ settingAction, None), []))"

subsection \<open>executeCommand\<close>

text \<open>The \<^verbatim>\<open>*plugin.Context\<close> argument is not read. \<^verbatim>\<open>split[2:]\<close> is checked as in
  \<open>parseCommand\<close>.\<close>

definition executeCommand ::
  "Plugin \<Rightarrow> CommandArgs \<Rightarrow> (panic + response) \<times> call list" where
  "executeCommand p args =
     (let split = Fields (args_Command args) in
      case parseCommand (args_Command args) of
        Inl pn \<Rightarrow> (Inl pn, [])
      | Inr (command, action, topic) \<Rightarrow>
          if command \<noteq> ''/zoom''
          then (Inr (''Command '' @ [CHR 0x27] @ command @ [CHR 0x27]
                       @ '' is not /zoom. Please try again.'', None), [])
          else if action = []
          then (Inr (''Please specify an action for /zoom command.'', None), [])
          else
            (case GetUser p (args_UserId args) of
               Inl appErr \<Rightarrow>
                 (Inr (''We could not retrieve user (userId: '' @ args_UserId args @ '')'',
                       None),
                  [Call_GetUser (args_UserId args)])
             | Inr user \<Rightarrow>
                 if action = actionConnect
                 then (case runConnectCommand p user args of
                         (r, calls) \<Rightarrow> (r, Call_GetUser (args_UserId args) # calls))
                 else if action = actionStart
                 then (case runStartCommand p args user topic of
                         (r, calls) \<Rightarrow> (Inr r, Call_GetUser (args_UserId args) # calls))
                 else if action = actionDisconnect
                 then (case runDisconnectCommand p user of
                         (r, calls) \<Rightarrow> (Inr r, Call_GetUser (args_UserId args) # calls))
                 else if action = actionHelp \<or> action = []
                 then (Inr (runHelpCommand p), [Call_GetUser (args_UserId args)])
                 else if action = ''setting''
                 then (if length split < 2
                       then (Inl (SliceBoundsOutOfRange 2 (length split)),
                             [Call_GetUser (args_UserId args)])
                       else (case runSettingCommand p (drop 2 split) user of
                               (r, calls) \<Rightarrow>
                                 (Inr r, Call_GetUser (args_UserId args) # calls)))
                 else (Inr (''Unknown action '' @ action, None),
                       [Call_GetUser (args_UserId args)])))"

subsection \<open>Concrete plugins, users and commands\<close>

definition alice :: User where
  "alice = \<lparr>user_Id = ''u1'', user_IsSystemAdmin = False\<rparr>"

definition aliceZoom :: ZoomUser where
  "aliceZoom = \<lparr>zoom_Pmi = 4242\<rparr>"

definition startArgs :: CommandArgs where
  "startArgs = \<lparr>args_UserId = ''u1'', args_ChannelId = ''c1'', args_RootId = ''r1'',
                 args_Command = ''/zoom start team sync''\<rparr>"

text \<open>A user-level deployment in which every call succeeds: the user is a channel
  member and connected, no meeting is recent, the stored preference is "false", the
  provider creates meeting 77.\<close>

definition plugin0 :: Plugin where
  "plugin0 =
     \<lparr>configuration = \<lparr>EnableOAuth = True, AccountLevelApp = False\<rparr>,
      OAuthEnabled = True,
      GetUser = (\<lambda>uid. Inr \<lparr>user_Id = uid, user_IsSystemAdmin = False\<rparr>),
      GetChannelMember = (\<lambda>cid uid. None),
      GetConfig = \<lparr>ServiceSettings = \<lparr>SiteURL = Some ''https://chat.example''\<rparr>\<rparr>,
      UpdatePreferencesForUser = (\<lambda>uid prefs. None),
      checkPreviousMessages = (\<lambda>cid. (False, [], [], [], None)),
      authenticateAndFetchZoomUser = (\<lambda>u. Inr aliceZoom),
      storeOAuthUserState = (\<lambda>uid cid flag. None),
      getPMISettingData = (\<lambda>uid. (''false'', None)),
      createMeetingWithoutPMI = (\<lambda>u z cid topic. (77, None)),
      postMeeting = (\<lambda>u mid cid rid topic. None),
      getSuperuserToken = (None, None),
      fetchOAuthUserInfo = (\<lambda>key uid. (None, Some (New ''not found''))),
      removeSuperUserToken = None,
      disconnectOAuthUser = (\<lambda>uid. None),
      defaultMeetingTopic = ''Zoom Meeting'',
      zoomUserByMMID = ''zoomtoken_'',
      OAuthPrompt = (\<lambda>url. ''Connect: '' @ url)\<rparr>"

definition pluginTrue :: Plugin where
  "pluginTrue = plugin0\<lparr>getPMISettingData := (\<lambda>uid. (''true'', None))\<rparr>"

definition pluginAsk :: Plugin where
  "pluginAsk = plugin0\<lparr>getPMISettingData := (\<lambda>uid. (''ask'', None))\<rparr>"

definition pluginPrefError :: Plugin where
  "pluginPrefError =
     plugin0\<lparr>getPMISettingData := (\<lambda>uid. ([], Some (AppError ''no preference'')))\<rparr>"

text \<open>The provider answers with a meeting id and an error at once.\<close>

definition pluginCreateError :: Plugin where
  "pluginCreateError =
     plugin0\<lparr>createMeetingWithoutPMI := (\<lambda>u z cid topic. (5, Some (New ''quota'')))\<rparr>"

definition pluginRecent :: Plugin where
  "pluginRecent =
     plugin0\<lparr>checkPreviousMessages :=
       (\<lambda>cid. (True, ''https://zoom.us/j/1'', ''bob'', ''zoom'', None))\<rparr>"

text \<open>The user is not connected, and the pending connection cannot be stored.\<close>

definition pluginNoAuth :: Plugin where
  "pluginNoAuth =
     plugin0\<lparr>authenticateAndFetchZoomUser :=
               (\<lambda>u. Inl \<lparr>auth_Message = ''Please connect'',
                          auth_Err = Some (New ''not connected'')\<rparr>),
             storeOAuthUserState := (\<lambda>uid cid flag. Some (AppError ''store down''))\<rparr>"

text \<open>A connected deployment in which the pending connection cannot be stored.\<close>

definition pluginStoreDown :: Plugin where
  "pluginStoreDown =
     plugin0\<lparr>storeOAuthUserState := (\<lambda>uid cid flag. Some (AppError ''store down''))\<rparr>"

text \<open>An account-level deployment with no shared token yet, and an administrator.\<close>

definition pluginAccount :: Plugin where
  "pluginAccount = plugin0\<lparr>configuration := \<lparr>EnableOAuth = True, AccountLevelApp = True\<rparr>\<rparr>"

definition admin :: User where
  "admin = \<lparr>user_Id = ''u0'', user_IsSystemAdmin = True\<rparr>"

section \<open>Properties of parseCommand\<close>

lemma FieldsFrom_nonempty: "t \<in> set (FieldsFrom cur s) \<Longrightarrow> t \<noteq> []"
proof (induction cur s rule: FieldsFrom.induct)
  case (1 cur)
  then show ?case by (simp add: flush_def split: if_splits)
next
  case (2 cur c cs)
  show ?case
  proof (cases "0 < spaceWidth (c # cs)")
    case True
    with "2.prems" have "t \<in> set (flush cur) \<or>
        t \<in> set (FieldsFrom [] (drop (spaceWidth (c # cs) - 1) cs))"
      by simp
    then show ?thesis
    proof
      assume "t \<in> set (flush cur)"
      then show ?thesis by (simp add: flush_def split: if_splits)
    next
      assume "t \<in> set (FieldsFrom [] (drop (spaceWidth (c # cs) - 1) cs))"
      with True "2.IH"(1) show ?thesis by blast
    qed
  next
    case False
    with "2.prems" have "t \<in> set (FieldsFrom (cur @ [c]) cs)" by simp
    with False "2.IH"(2) show ?thesis by blast
  qed
qed

lemma Fields_nonempty: "t \<in> set (Fields s) \<Longrightarrow> t \<noteq> []"
  unfolding Fields_def by (rule FieldsFrom_nonempty)

lemma Join_nonempty: "x \<noteq> [] \<Longrightarrow> Join (x # xs) sep \<noteq> []"
  by (cases xs) simp_all

text \<open>Tokens of plain bytes, joined with single spaces, are read back as they are.\<close>

lemma whiteSpace_nonempty: "w \<in> set whiteSpace \<Longrightarrow> w \<noteq> []"
  by (auto simp add: whiteSpace_def)

lemma spaceWidth_plain:
  assumes "plainByte c"
  shows "spaceWidth (c # cs) = 0"
proof -
  have "\<not> prefix w (c # cs)" if "w \<in> set whiteSpace" for w
  proof (cases w)
    case Nil
    with that show ?thesis using whiteSpace_nonempty by blast
  next
    case (Cons a w')
    with that have "a \<in> set (map hd whiteSpace)" by force
    with assms have "a \<noteq> c" by (auto simp add: plainByte_def)
    with Cons show ?thesis by simp
  qed
  then have "find (\<lambda>w. prefix w (c # cs)) whiteSpace = None"
    by (simp add: find_None_iff)
  then show ?thesis by (simp add: spaceWidth_def)
qed

lemma spaceWidth_space: "spaceWidth (CHR '' '' # cs) = 1"
  by (simp add: spaceWidth_def whiteSpace_def)

lemma FieldsFrom_plain:
  "\<forall>c\<in>set t. plainByte c \<Longrightarrow> FieldsFrom cur (t @ s) = FieldsFrom (cur @ t) s"
  by (induction t arbitrary: cur) (simp_all add: spaceWidth_plain)

lemma FieldsFrom_space: "FieldsFrom cur (CHR '' '' # s) = flush cur @ FieldsFrom [] s"
  by (simp add: spaceWidth_space)

lemma Fields_Join:
  "\<forall>t\<in>set ts. t \<noteq> [] \<and> (\<forall>c\<in>set t. plainByte c) \<Longrightarrow> Fields (Join ts '' '') = ts"
proof (induction ts "'' ''" rule: Join.induct)
  case 1
  then show ?case by (simp add: Fields_def flush_def)
next
  case (2 x)
  then show ?case
    using FieldsFrom_plain [of x "[]" "[]"] by (simp add: Fields_def flush_def)
next
  case (3 x y ys)
  then have ih: "FieldsFrom [] (Join (y # ys) '' '') = y # ys" by (simp add: Fields_def)
  from 3 have px: "\<forall>c\<in>set x. plainByte c" and nx: "x \<noteq> []" by simp_all
  have "Fields (Join (x # y # ys) '' '') = FieldsFrom [] (x @ CHR '' '' # Join (y # ys) '' '')"
    by (simp add: Fields_def)
  also have "\<dots> = FieldsFrom x (CHR '' '' # Join (y # ys) '' '')"
    using FieldsFrom_plain [OF px, of "[]"] by simp
  also have "\<dots> = flush x @ FieldsFrom [] (Join (y # ys) '' '')"
    by (rule FieldsFrom_space)
  also have "\<dots> = x # y # ys"
    using nx ih by (simp add: flush_def)
  finally show ?case .
qed

text \<open>So a command written as "/zoom", an action and further tokens, with single spaces
  between them, is parsed into exactly these.\<close>

lemma parseCommand_well_formed:
  assumes "\<forall>t\<in>set (action # rest). t \<noteq> [] \<and> (\<forall>c\<in>set t. plainByte c)"
  shows "parseCommand (Join (''/zoom'' # action # rest) '' '')
           = Inr (''/zoom'', action, if action = ''start'' then Join rest '' '' else [])"
proof -
  have "\<forall>c\<in>set ''/zoom''. plainByte c"
    by (simp add: plainByte_def whiteSpace_def)
  with assms have "Fields (Join (''/zoom'' # action # rest) '' '') = ''/zoom'' # action # rest"
    by (intro Fields_Join) auto
  then show ?thesis
    by (simp add: parseCommand_def actionStart_def)
qed

lemma Fields_example:
  "Fields ''/zoom start team sync'' = [''/zoom'', ''start'', ''team'', ''sync'']"
  by (simp add: Fields_def spaceWidth_def whiteSpace_def flush_def)

lemma Fields_blank: "Fields ''  '' = []"
  by (simp add: Fields_def spaceWidth_def whiteSpace_def flush_def)

lemma Fields_empty: "Fields [] = []"
  by (simp add: Fields_def flush_def)

lemma parseCommand_example:
  "parseCommand ''/zoom start team sync'' = Inr (''/zoom'', ''start'', ''team sync'')"
  by (simp add: parseCommand_def Fields_example actionStart_def)

text \<open>
  Claim C7. When the raw command has at least one white-space-delimited token,
  \<open>parseCommand\<close> returns: \<open>cmd\<close> is the first token, \<open>action\<close> is the second token,
  or empty when there is only one; \<open>topic\<close> is non-empty exactly when \<open>action\<close> is
  "start" and there are at least three tokens, and then it is the tokens after the
  second, joined with single spaces.
\<close>

theorem parseCommand_tokens:
  assumes "Fields rawCommand \<noteq> []"
  shows "\<exists>cmd action topic.
           parseCommand rawCommand = Inr (cmd, action, topic)
         \<and> cmd = Fields rawCommand ! 0
         \<and> action = (if 1 < length (Fields rawCommand) then Fields rawCommand ! 1 else [])
         \<and> ((topic \<noteq> []) = (action = ''start'' \<and> 3 \<le> length (Fields rawCommand)))
         \<and> (topic \<noteq> [] \<longrightarrow> topic = Join (drop 2 (Fields rawCommand)) '' '')"
proof -
  let ?ts = "Fields rawCommand"
  let ?action = "if 1 < length ?ts then ?ts ! 1 else []"
  from assms have len: "0 < length ?ts" by simp
  show ?thesis
  proof (cases "?action = ''start''")
    case False
    with len have "parseCommand rawCommand = Inr (?ts ! 0, ?action, [])"
      unfolding parseCommand_def Let_def actionStart_def by simp
    with False show ?thesis by simp
  next
    case True
    then have two: "2 \<le> length ?ts" by (auto split: if_splits)
    with True len
    have p: "parseCommand rawCommand = Inr (?ts ! 0, ?action, Join (drop 2 ?ts) '' '')"
      unfolding parseCommand_def Let_def actionStart_def by simp
    have "(Join (drop 2 ?ts) '' '' \<noteq> []) = (3 \<le> length ?ts)"
    proof (cases "drop 2 ?ts")
      case Nil
      then show ?thesis by simp
    next
      case (Cons x xs)
      then have "x \<in> set ?ts" by (metis in_set_dropD list.set_intros(1))
      then have "x \<noteq> []" by (rule Fields_nonempty)
      then have "Join (x # xs) '' '' \<noteq> []" by (rule Join_nonempty)
      moreover from Cons have "3 \<le> length ?ts"
        by (metis drop_eq_Nil list.distinct(1) not_less_eq_eq numeral_2_eq_2 numeral_3_eq_3)
      ultimately show ?thesis using Cons by simp
    qed
    with p True show ?thesis by simp
  qed
qed

theorem parseCommand_tokens_witness:
  "Fields ''/zoom start team sync'' \<noteq> []
   \<and> parseCommand ''/zoom start team sync'' = Inr (''/zoom'', ''start'', ''team sync'')
   \<and> ''team sync'' = Join (drop 2 (Fields ''/zoom start team sync'')) '' ''"
  using parseCommand_tokens [of "''/zoom start team sync''"]
  by (simp add: Fields_example parseCommand_example)

text \<open>
  Claim C8, as the code has it. On a raw command with no token (empty, or white space
  only) \<open>parseCommand\<close> does not return fields: reading \<^verbatim>\<open>split[0]\<close> panics with an
  index out of range.
\<close>

theorem parseCommand_no_token:
  assumes "Fields rawCommand = []"
  shows "parseCommand rawCommand = Inl (IndexOutOfRange 0 0)"
  using assms by (simp add: parseCommand_def)

theorem parseCommand_no_token_witness:
  "Fields ''  '' = [] \<and> parseCommand ''  '' = Inl (IndexOutOfRange 0 0)"
  using parseCommand_no_token [of "''  ''"] by (simp add: Fields_blank)

theorem parseCommand_empty_counterexample:
  "Fields [] = [] \<and> parseCommand [] \<noteq> Inr ([], [], [])"
  by (simp add: parseCommand_def Fields_empty)

section \<open>Properties of runStartCommand\<close>

text \<open>The definition, with the two later parts read by projections.\<close>

lemma runStartCommand_unfold:
  "runStartCommand p args user topic =
     (case GetChannelMember p (args_ChannelId args) (user_Id user) of
        Some appErr \<Rightarrow>
          ((''We could not get channel members (channelId: '' @ args_ChannelId args @ '')'',
            None),
           [Call_GetChannelMember (args_ChannelId args) (user_Id user)])
      | None \<Rightarrow>
          (case snd (snd (snd (snd (checkPreviousMessages p (args_ChannelId args))))) of
             Some appErr \<Rightarrow>
               ((''Error checking previous messages'', None),
                [Call_GetChannelMember (args_ChannelId args) (user_Id user),
                 Call_checkPreviousMessages (args_ChannelId args)])
           | None \<Rightarrow>
               if fst (checkPreviousMessages p (args_ChannelId args))
               then (([], None),
                     [Call_GetChannelMember (args_ChannelId args) (user_Id user),
                      Call_checkPreviousMessages (args_ChannelId args),
                      Call_postConfirm
                        (fst (snd (checkPreviousMessages p (args_ChannelId args))))
                        (args_ChannelId args) topic (user_Id user) (args_RootId args)
                        (fst (snd (snd (checkPreviousMessages p (args_ChannelId args)))))
                        (fst (snd (snd (snd (checkPreviousMessages p (args_ChannelId args))))))])
               else
                 (case authenticateAndFetchZoomUser p user of
                    Inl authErr \<Rightarrow>
                      ((auth_Message authErr, auth_Err authErr),
                       [Call_GetChannelMember (args_ChannelId args) (user_Id user),
                        Call_checkPreviousMessages (args_ChannelId args),
                        Call_authenticateAndFetchZoomUser user,
                        Call_storeOAuthUserState (user_Id user) (args_ChannelId args) False]
                       @ (case storeOAuthUserState p (user_Id user) (args_ChannelId args)
                                 False of
                            Some appErr \<Rightarrow> [Call_LogWarn ''failed to store user state'']
                          | None \<Rightarrow> []))
                  | Inr zoomUser \<Rightarrow>
                      (fst (runStartCommand_post p args user
                              (fst (fst (runStartCommand_decide p args user zoomUser)))
                              (snd (fst (runStartCommand_decide p args user zoomUser)))),
                       [Call_GetChannelMember (args_ChannelId args) (user_Id user),
                        Call_checkPreviousMessages (args_ChannelId args),
                        Call_authenticateAndFetchZoomUser user]
                       @ snd (runStartCommand_decide p args user zoomUser)
                       @ snd (runStartCommand_post p args user
                                (fst (fst (runStartCommand_decide p args user zoomUser)))
                                (snd (fst (runStartCommand_decide p args user zoomUser))))))))"
  by (simp add: runStartCommand_def split: option.splits prod.splits sum.splits)

text \<open>Past the three guards, the run is the guards' calls, then the choice of the
  meeting, then the post.\<close>

lemma runStartCommand_past_guards:
  assumes "GetChannelMember p (args_ChannelId args) (user_Id user) = None"
    and "checkPreviousMessages p (args_ChannelId args) = (False, link, creator, provider, None)"
    and "authenticateAndFetchZoomUser p user = Inr zoomUser"
  shows "runStartCommand p args user topic =
           (fst (runStartCommand_post p args user
                   (fst (fst (runStartCommand_decide p args user zoomUser)))
                   (snd (fst (runStartCommand_decide p args user zoomUser)))),
            [Call_GetChannelMember (args_ChannelId args) (user_Id user),
             Call_checkPreviousMessages (args_ChannelId args),
             Call_authenticateAndFetchZoomUser user]
            @ snd (runStartCommand_decide p args user zoomUser)
            @ snd (runStartCommand_post p args user
                     (fst (fst (runStartCommand_decide p args user zoomUser)))
                     (snd (fst (runStartCommand_decide p args user zoomUser)))))"
  using assms by (simp add: runStartCommand_def split: prod.splits)

lemma decide_true:
  assumes "getPMISettingData p (user_Id user) = (''true'', None)"
  shows "runStartCommand_decide p args user zoomUser =
           ((zoom_Pmi zoomUser, None), [Call_getPMISettingData (user_Id user)])"
  using assms
  by (simp add: runStartCommand_decide_def trueString_def zoomPMISettingValueAsk_def)

lemma decide_other:
  assumes "getPMISettingData p (user_Id user) = (pref, None)"
    and "pref \<noteq> []" and "pref \<noteq> ''ask''" and "pref \<noteq> ''true''"
  shows "runStartCommand_decide p args user zoomUser =
           (createMeetingWithoutPMI p user zoomUser (args_ChannelId args) (defaultMeetingTopic p),
            [Call_getPMISettingData (user_Id user),
             Call_createMeetingWithoutPMI user zoomUser (args_ChannelId args)
               (defaultMeetingTopic p)])"
  using assms
  by (simp add: runStartCommand_decide_def trueString_def zoomPMISettingValueAsk_def)

lemma decide_ask:
  assumes "(getPMISettingData p (user_Id user) = (pref, None) \<and> (pref = [] \<or> pref = ''ask''))
           \<or> getPMISettingData p (user_Id user) = (pref, Some e)"
  shows "runStartCommand_decide p args user zoomUser =
           ((- 1, None),
            [Call_getPMISettingData (user_Id user),
             Call_askUserPMIMeeting (user_Id user) (args_ChannelId args)])"
  using assms
  by (auto simp add: runStartCommand_decide_def trueString_def zoomPMISettingValueAsk_def)

lemma post_no_create:
  "filter is_createMeetingWithoutPMI (snd (runStartCommand_post p args user m e)) = []"
  by (simp add: runStartCommand_post_def split: option.splits)

lemma post_no_ask:
  "filter is_askUserPMIMeeting (snd (runStartCommand_post p args user m e)) = []"
  by (simp add: runStartCommand_post_def split: option.splits)

lemma post_undecided:
  "runStartCommand_post p args user (- 1) None = (([], None), [])"
  by (simp add: runStartCommand_post_def)

text \<open>
  Claim C1. In a run of \<open>runStartCommand\<close> past the membership, recent-meeting and
  auth guards: with the stored preference "true", \<^verbatim>\<open>meetingID\<close> is the identity's PMI
  and the provider is not asked to create a meeting; with a stored preference other
  than "", "ask" and "true", the provider is asked exactly once, with the default
  topic; with the preference "" or "ask", or a failed preference lookup, no meeting is
  decided (\<^verbatim>\<open>meetingID\<close> stays -1 with no creation error), the command returns the
  empty message and no error, and the user is asked exactly once.
\<close>

theorem runStartCommand_pmi_branches:
  assumes "GetChannelMember p (args_ChannelId args) (user_Id user) = None"
    and "checkPreviousMessages p (args_ChannelId args) = (False, link, creator, provider, None)"
    and "authenticateAndFetchZoomUser p user = Inr zoomUser"
  shows
    "(getPMISettingData p (user_Id user) = (''true'', None) \<longrightarrow>
        fst (runStartCommand_decide p args user zoomUser) = (zoom_Pmi zoomUser, None)
      \<and> filter is_createMeetingWithoutPMI (snd (runStartCommand p args user topic)) = [])
   \<and> (getPMISettingData p (user_Id user) = (pref, None)
        \<and> pref \<noteq> [] \<and> pref \<noteq> ''ask'' \<and> pref \<noteq> ''true'' \<longrightarrow>
        filter is_createMeetingWithoutPMI (snd (runStartCommand p args user topic))
          = [Call_createMeetingWithoutPMI user zoomUser (args_ChannelId args)
               (defaultMeetingTopic p)])
   \<and> ((getPMISettingData p (user_Id user) = (pref, None) \<and> (pref = [] \<or> pref = ''ask''))
        \<or> getPMISettingData p (user_Id user) = (pref, Some e) \<longrightarrow>
        fst (runStartCommand_decide p args user zoomUser) = (- 1, None)
      \<and> fst (runStartCommand p args user topic) = ([], None)
      \<and> filter is_askUserPMIMeeting (snd (runStartCommand p args user topic))
          = [Call_askUserPMIMeeting (user_Id user) (args_ChannelId args)])"
proof (intro conjI impI)
  note run = runStartCommand_past_guards [OF assms]
  {
    assume t: "getPMISettingData p (user_Id user) = (''true'', None)"
    show "fst (runStartCommand_decide p args user zoomUser) = (zoom_Pmi zoomUser, None)"
      by (simp add: decide_true [OF t])
    show "filter is_createMeetingWithoutPMI (snd (runStartCommand p args user topic)) = []"
      by (simp add: run decide_true [OF t] post_no_create)
  }
  {
    assume "getPMISettingData p (user_Id user) = (pref, None)
              \<and> pref \<noteq> [] \<and> pref \<noteq> ''ask'' \<and> pref \<noteq> ''true''"
    then have d: "runStartCommand_decide p args user zoomUser =
           (createMeetingWithoutPMI p user zoomUser (args_ChannelId args) (defaultMeetingTopic p),
            [Call_getPMISettingData (user_Id user),
             Call_createMeetingWithoutPMI user zoomUser (args_ChannelId args)
               (defaultMeetingTopic p)])"
      by (simp add: decide_other)
    show "filter is_createMeetingWithoutPMI (snd (runStartCommand p args user topic))
          = [Call_createMeetingWithoutPMI user zoomUser (args_ChannelId args)
               (defaultMeetingTopic p)]"
      by (simp add: run d post_no_create)
  }
  {
    assume "(getPMISettingData p (user_Id user) = (pref, None) \<and> (pref = [] \<or> pref = ''ask''))
        \<or> getPMISettingData p (user_Id user) = (pref, Some e)"
    note d = decide_ask [OF this]
    show "fst (runStartCommand_decide p args user zoomUser) = (- 1, None)"
      by (simp add: d)
    show "fst (runStartCommand p args user topic) = ([], None)"
      by (simp add: run d post_undecided)
    show "filter is_askUserPMIMeeting (snd (runStartCommand p args user topic))
          = [Call_askUserPMIMeeting (user_Id user) (args_ChannelId args)]"
      by (simp add: run d post_undecided)
  }
qed

theorem runStartCommand_pmi_branches_witness:
  "GetChannelMember plugin0 (args_ChannelId startArgs) (user_Id alice) = None
   \<and> checkPreviousMessages plugin0 (args_ChannelId startArgs) = (False, [], [], [], None)
   \<and> authenticateAndFetchZoomUser plugin0 alice = Inr aliceZoom
   \<and> getPMISettingData pluginTrue (user_Id alice) = (''true'', None)
   \<and> fst (runStartCommand_decide pluginTrue startArgs alice aliceZoom) = (4242, None)
   \<and> filter is_createMeetingWithoutPMI
        (snd (runStartCommand pluginTrue startArgs alice ''team sync'')) = []
   \<and> getPMISettingData plugin0 (user_Id alice) = (''false'', None)
   \<and> filter is_createMeetingWithoutPMI
        (snd (runStartCommand plugin0 startArgs alice ''team sync''))
        = [Call_createMeetingWithoutPMI alice aliceZoom ''c1'' ''Zoom Meeting'']
   \<and> getPMISettingData pluginAsk (user_Id alice) = (''ask'', None)
   \<and> fst (runStartCommand pluginAsk startArgs alice ''team sync'') = ([], None)
   \<and> filter is_askUserPMIMeeting
        (snd (runStartCommand pluginAsk startArgs alice ''team sync''))
        = [Call_askUserPMIMeeting ''u1'' ''c1'']
   \<and> getPMISettingData pluginPrefError (user_Id alice) = ([], Some (AppError ''no preference''))
   \<and> fst (runStartCommand pluginPrefError startArgs alice ''team sync'') = ([], None)
   \<and> filter is_askUserPMIMeeting
        (snd (runStartCommand pluginPrefError startArgs alice ''team sync''))
        = [Call_askUserPMIMeeting ''u1'' ''c1'']"
proof -
  note defs = plugin0_def pluginTrue_def pluginAsk_def pluginPrefError_def startArgs_def
    alice_def aliceZoom_def
  have guards:
    "GetChannelMember plugin0 (args_ChannelId startArgs) (user_Id alice) = None"
    "checkPreviousMessages plugin0 (args_ChannelId startArgs) = (False, [], [], [], None)"
    "authenticateAndFetchZoomUser plugin0 alice = Inr aliceZoom"
    "GetChannelMember pluginTrue (args_ChannelId startArgs) (user_Id alice) = None"
    "checkPreviousMessages pluginTrue (args_ChannelId startArgs) = (False, [], [], [], None)"
    "authenticateAndFetchZoomUser pluginTrue alice = Inr aliceZoom"
    "GetChannelMember pluginAsk (args_ChannelId startArgs) (user_Id alice) = None"
    "checkPreviousMessages pluginAsk (args_ChannelId startArgs) = (False, [], [], [], None)"
    "authenticateAndFetchZoomUser pluginAsk alice = Inr aliceZoom"
    "GetChannelMember pluginPrefError (args_ChannelId startArgs) (user_Id alice) = None"
    "checkPreviousMessages pluginPrefError (args_ChannelId startArgs)
       = (False, [], [], [], None)"
    "authenticateAndFetchZoomUser pluginPrefError alice = Inr aliceZoom"
    by (simp_all add: defs)
  from runStartCommand_pmi_branches [OF guards(4-6),
      where pref = "''false''" and topic = "''team sync''" and e = "AppError ''no preference''"]
    runStartCommand_pmi_branches [OF guards(1-3),
      where pref = "''false''" and topic = "''team sync''" and e = "AppError ''no preference''"]
    runStartCommand_pmi_branches [OF guards(7-9),
      where pref = "''ask''" and topic = "''team sync''" and e = "AppError ''no preference''"]
    runStartCommand_pmi_branches [OF guards(10-12),
      where pref = "[]" and topic = "''team sync''" and e = "AppError ''no preference''"]
  show ?thesis
    by (simp add: defs)
qed

text \<open>
  Claim C2, as the code has it. In the post-and-track step: with \<^verbatim>\<open>meetingID\<close> still
  -1 and no creation error, the step returns the empty message and no error and calls
  nothing; it returns the error "error while create new meeting", having called
  nothing, exactly when a creation error occurred, whether or not \<^verbatim>\<open>meetingID\<close> is
  -1; only with a concrete \<^verbatim>\<open>meetingID\<close> and no creation error does it post the
  announcement, followed on a successful post by the telemetry event tagged "command",
  while a failed post is returned as the error and no event is sent.
\<close>

theorem runStartCommand_post_cases:
  "(meetingID = - 1 \<and> createMeetingErr = None \<longrightarrow>
      runStartCommand_post p args user meetingID createMeetingErr = (([], None), []))
   \<and> ((runStartCommand_post p args user meetingID createMeetingErr
         = (([], Some (New ''error while create new meeting'')), []))
        = (createMeetingErr \<noteq> None))
   \<and> (meetingID \<noteq> - 1 \<and> createMeetingErr = None \<longrightarrow>
        filter is_postMeeting (snd (runStartCommand_post p args user meetingID createMeetingErr))
          = [Call_postMeeting user meetingID (args_ChannelId args) (args_RootId args)
               (defaultMeetingTopic p)]
      \<and> (postMeeting p user meetingID (args_ChannelId args) (args_RootId args)
            (defaultMeetingTopic p) = None \<longrightarrow>
          runStartCommand_post p args user meetingID createMeetingErr
            = (([], None),
               [Call_postMeeting user meetingID (args_ChannelId args) (args_RootId args)
                  (defaultMeetingTopic p),
                Call_trackMeetingStart (args_UserId args) ''command'']))
      \<and> (postMeeting p user meetingID (args_ChannelId args) (args_RootId args)
            (defaultMeetingTopic p) = Some postMeetingErr \<longrightarrow>
          runStartCommand_post p args user meetingID createMeetingErr
            = (([], Some postMeetingErr),
               [Call_postMeeting user meetingID (args_ChannelId args) (args_RootId args)
                  (defaultMeetingTopic p)])))"
  by (auto simp add: runStartCommand_post_def telemetryStartSourceCommand_def
      split: option.splits)

theorem runStartCommand_post_cases_witness:
  "runStartCommand_post plugin0 startArgs alice (- 1) None = (([], None), [])
   \<and> runStartCommand_post plugin0 startArgs alice (- 1) (Some (New ''quota''))
       = (([], Some (New ''error while create new meeting'')), [])
   \<and> runStartCommand_post plugin0 startArgs alice 77 None
       = (([], None),
          [Call_postMeeting alice 77 ''c1'' ''r1'' ''Zoom Meeting'',
           Call_trackMeetingStart ''u1'' ''command''])
   \<and> runStartCommand_post (plugin0\<lparr>postMeeting := (\<lambda>u m c r t. Some (New ''no post''))\<rparr>)
         startArgs alice 77 None
       = (([], Some (New ''no post'')),
          [Call_postMeeting alice 77 ''c1'' ''r1'' ''Zoom Meeting''])"
  using
    runStartCommand_post_cases [of "- 1" None plugin0 startArgs alice "New ''no post''"]
    runStartCommand_post_cases [of "- 1" "Some (New ''quota'')" plugin0 startArgs alice
      "New ''no post''"]
    runStartCommand_post_cases [of 77 None plugin0 startArgs alice "New ''no post''"]
    runStartCommand_post_cases [of 77 None
      "plugin0\<lparr>postMeeting := (\<lambda>u m c r t. Some (New ''no post''))\<rparr>" startArgs alice
      "New ''no post''"]
  by (simp add: plugin0_def startArgs_def alice_def)

text \<open>The claim as the specification states it fails: a concrete \<^verbatim>\<open>meetingID\<close>
  together with a creation error returns the error and posts nothing.\<close>

theorem runStartCommand_post_counterexample:
  "(5::int) \<noteq> - 1
   \<and> runStartCommand_post plugin0 startArgs alice 5 (Some (New ''quota''))
       = (([], Some (New ''error while create new meeting'')), [])
   \<and> createMeetingWithoutPMI pluginCreateError alice aliceZoom ''c1'' ''Zoom Meeting''
       = (5, Some (New ''quota''))
   \<and> fst (runStartCommand pluginCreateError startArgs alice ''team sync'')
       = ([], Some (New ''error while create new meeting''))
   \<and> filter is_postMeeting (snd (runStartCommand pluginCreateError startArgs alice ''team sync''))
       = []"
  by (simp add: runStartCommand_def runStartCommand_decide_def runStartCommand_post_def
      pluginCreateError_def plugin0_def startArgs_def alice_def aliceZoom_def
      trueString_def zoomPMISettingValueAsk_def)

text \<open>
  Claim C3. When the user is a channel member and the look at the previous messages
  succeeds and reports a recent meeting, \<open>runStartCommand\<close> creates no meeting (the
  provider is not asked and no announcement is posted), makes exactly one
  \<^verbatim>\<open>postConfirm\<close> call, with the link, the creator and the provider of the recent
  meeting, and returns the empty message and no error.
\<close>

theorem runStartCommand_recent_meeting:
  assumes "GetChannelMember p (args_ChannelId args) (user_Id user) = None"
    and "checkPreviousMessages p (args_ChannelId args) = (True, link, creator, provider, None)"
  shows "fst (runStartCommand p args user topic) = ([], None)
       \<and> snd (runStartCommand p args user topic)
           = [Call_GetChannelMember (args_ChannelId args) (user_Id user),
              Call_checkPreviousMessages (args_ChannelId args),
              Call_postConfirm link (args_ChannelId args) topic (user_Id user)
                (args_RootId args) creator provider]
       \<and> filter is_postConfirm (snd (runStartCommand p args user topic))
           = [Call_postConfirm link (args_ChannelId args) topic (user_Id user)
                (args_RootId args) creator provider]
       \<and> filter is_createMeetingWithoutPMI (snd (runStartCommand p args user topic)) = []
       \<and> filter is_postMeeting (snd (runStartCommand p args user topic)) = []"
  using assms by (simp add: runStartCommand_def)

theorem runStartCommand_recent_meeting_witness:
  "GetChannelMember pluginRecent (args_ChannelId startArgs) (user_Id alice) = None
   \<and> checkPreviousMessages pluginRecent (args_ChannelId startArgs)
       = (True, ''https://zoom.us/j/1'', ''bob'', ''zoom'', None)
   \<and> runStartCommand pluginRecent startArgs alice ''team sync''
       = (([], None),
          [Call_GetChannelMember ''c1'' ''u1'', Call_checkPreviousMessages ''c1'',
           Call_postConfirm ''https://zoom.us/j/1'' ''c1'' ''team sync'' ''u1'' ''r1''
             ''bob'' ''zoom''])"
proof -
  note defs = pluginRecent_def plugin0_def startArgs_def alice_def
  have guards:
    "GetChannelMember pluginRecent (args_ChannelId startArgs) (user_Id alice) = None"
    "checkPreviousMessages pluginRecent (args_ChannelId startArgs)
       = (True, ''https://zoom.us/j/1'', ''bob'', ''zoom'', None)"
    by (simp_all add: defs)
  from runStartCommand_recent_meeting [OF guards, where topic = "''team sync''"]
  show ?thesis
    by (cases "runStartCommand pluginRecent startArgs alice ''team sync''")
       (simp add: defs)
qed

text \<open>What \<^verbatim>\<open>storeOAuthUserState\<close> answers changes neither what
  \<open>runStartCommand\<close> returns nor its calls, the log line apart.\<close>

lemma decide_store_answer:
  "runStartCommand_decide (p\<lparr>storeOAuthUserState := f\<rparr>) args user zoomUser
     = runStartCommand_decide p args user zoomUser"
  by (simp add: runStartCommand_decide_def split: prod.splits option.splits)

lemma post_store_answer:
  "runStartCommand_post (p\<lparr>storeOAuthUserState := f\<rparr>) args user m e
     = runStartCommand_post p args user m e"
  by (simp add: runStartCommand_post_def split: option.splits)

lemma runStartCommand_store_answer:
  "fst (runStartCommand (p\<lparr>storeOAuthUserState := f\<rparr>) args user topic)
     = fst (runStartCommand p args user topic)"
  by (simp add: runStartCommand_unfold decide_store_answer post_store_answer
      split: option.splits sum.splits)

lemma runStartCommand_store_calls:
  "filter (\<lambda>c. \<not> is_LogWarn c) (snd (runStartCommand (p\<lparr>storeOAuthUserState := f\<rparr>) args user topic))
     = filter (\<lambda>c. \<not> is_LogWarn c) (snd (runStartCommand p args user topic))"
  by (simp add: runStartCommand_unfold decide_store_answer post_store_answer
      split: option.splits sum.splits)

lemma runStartCommand_unauthenticated_calls:
  assumes "authenticateAndFetchZoomUser p user = Inl authErr"
  shows "filter (\<lambda>c. is_createMeetingWithoutPMI c \<or> is_postMeeting c \<or> is_trackMeetingStart c)
           (snd (runStartCommand p args user topic)) = []"
  using assms by (simp add: runStartCommand_unfold split: option.splits)

text \<open>
  Claim C5. When the user's provider identity cannot be resolved, no run of
  \<open>runStartCommand\<close> asks the provider for a meeting, posts an announcement or sends
  a telemetry event. When such a run reaches the auth guard (the user is a channel
  member and no meeting is recent), it stores a pending connection with the user's id,
  the channel id and the flag false, and returns the message and the error of the
  authentication failure; a failure of the store is logged and changes nothing of what
  is returned.
\<close>

theorem runStartCommand_unauthenticated:
  assumes "authenticateAndFetchZoomUser p user = Inl authErr"
  shows "(GetChannelMember p (args_ChannelId args) (user_Id user) = None
          \<and> checkPreviousMessages p (args_ChannelId args)
              = (False, link, creator, provider, None) \<longrightarrow>
            fst (runStartCommand p args user topic) = (auth_Message authErr, auth_Err authErr)
          \<and> filter is_storeOAuthUserState (snd (runStartCommand p args user topic))
              = [Call_storeOAuthUserState (user_Id user) (args_ChannelId args) False]
          \<and> (storeOAuthUserState p (user_Id user) (args_ChannelId args) False = None \<longrightarrow>
                snd (runStartCommand p args user topic)
                  = [Call_GetChannelMember (args_ChannelId args) (user_Id user),
                     Call_checkPreviousMessages (args_ChannelId args),
                     Call_authenticateAndFetchZoomUser user,
                     Call_storeOAuthUserState (user_Id user) (args_ChannelId args) False])
          \<and> (storeOAuthUserState p (user_Id user) (args_ChannelId args) False \<noteq> None \<longrightarrow>
                snd (runStartCommand p args user topic)
                  = [Call_GetChannelMember (args_ChannelId args) (user_Id user),
                     Call_checkPreviousMessages (args_ChannelId args),
                     Call_authenticateAndFetchZoomUser user,
                     Call_storeOAuthUserState (user_Id user) (args_ChannelId args) False,
                     Call_LogWarn ''failed to store user state'']))
       \<and> fst (runStartCommand (p\<lparr>storeOAuthUserState := f\<rparr>) args user topic)
           = fst (runStartCommand p args user topic)
       \<and> filter (\<lambda>c. is_createMeetingWithoutPMI c \<or> is_postMeeting c \<or> is_trackMeetingStart c)
            (snd (runStartCommand p args user topic)) = []"
proof (intro conjI impI)
  show "fst (runStartCommand (p\<lparr>storeOAuthUserState := f\<rparr>) args user topic)
           = fst (runStartCommand p args user topic)"
    by (rule runStartCommand_store_answer)
  show "filter (\<lambda>c. is_createMeetingWithoutPMI c \<or> is_postMeeting c \<or> is_trackMeetingStart c)
            (snd (runStartCommand p args user topic)) = []"
    using assms by (rule runStartCommand_unauthenticated_calls)
next
  assume g: "GetChannelMember p (args_ChannelId args) (user_Id user) = None
          \<and> checkPreviousMessages p (args_ChannelId args)
              = (False, link, creator, provider, None)"
  have calls: "snd (runStartCommand p args user topic)
     = [Call_GetChannelMember (args_ChannelId args) (user_Id user),
        Call_checkPreviousMessages (args_ChannelId args),
        Call_authenticateAndFetchZoomUser user,
        Call_storeOAuthUserState (user_Id user) (args_ChannelId args) False]
       @ (case storeOAuthUserState p (user_Id user) (args_ChannelId args) False of
            Some appErr \<Rightarrow> [Call_LogWarn ''failed to store user state'']
          | None \<Rightarrow> [])"
    using assms g by (simp add: runStartCommand_def)
  show "fst (runStartCommand p args user topic) = (auth_Message authErr, auth_Err authErr)"
    using assms g by (simp add: runStartCommand_def)
  show "filter is_storeOAuthUserState (snd (runStartCommand p args user topic))
              = [Call_storeOAuthUserState (user_Id user) (args_ChannelId args) False]"
    by (simp add: calls split: option.splits)
  {
    assume "storeOAuthUserState p (user_Id user) (args_ChannelId args) False = None"
    then show "snd (runStartCommand p args user topic)
                  = [Call_GetChannelMember (args_ChannelId args) (user_Id user),
                     Call_checkPreviousMessages (args_ChannelId args),
                     Call_authenticateAndFetchZoomUser user,
                     Call_storeOAuthUserState (user_Id user) (args_ChannelId args) False]"
      by (simp add: calls)
  }
  {
    assume "storeOAuthUserState p (user_Id user) (args_ChannelId args) False \<noteq> None"
    then show "snd (runStartCommand p args user topic)
                  = [Call_GetChannelMember (args_ChannelId args) (user_Id user),
                     Call_checkPreviousMessages (args_ChannelId args),
                     Call_authenticateAndFetchZoomUser user,
                     Call_storeOAuthUserState (user_Id user) (args_ChannelId args) False,
                     Call_LogWarn ''failed to store user state'']"
      by (auto simp add: calls)
  }
qed

theorem runStartCommand_unauthenticated_witness:
  "authenticateAndFetchZoomUser pluginNoAuth alice
       = Inl \<lparr>auth_Message = ''Please connect'', auth_Err = Some (New ''not connected'')\<rparr>
   \<and> GetChannelMember pluginNoAuth (args_ChannelId startArgs) (user_Id alice) = None
   \<and> checkPreviousMessages pluginNoAuth (args_ChannelId startArgs) = (False, [], [], [], None)
   \<and> storeOAuthUserState pluginNoAuth ''u1'' ''c1'' False \<noteq> None
   \<and> runStartCommand pluginNoAuth startArgs alice ''team sync''
       = ((''Please connect'', Some (New ''not connected'')),
          [Call_GetChannelMember ''c1'' ''u1'', Call_checkPreviousMessages ''c1'',
           Call_authenticateAndFetchZoomUser alice,
           Call_storeOAuthUserState ''u1'' ''c1'' False,
           Call_LogWarn ''failed to store user state''])"
proof -
  note defs = pluginNoAuth_def plugin0_def startArgs_def alice_def
  have auth:
    "authenticateAndFetchZoomUser pluginNoAuth alice
       = Inl \<lparr>auth_Message = ''Please connect'', auth_Err = Some (New ''not connected'')\<rparr>"
    by (simp add: defs)
  from runStartCommand_unauthenticated [OF auth, where topic = "''team sync''"
      and args = startArgs and link = "[]" and creator = "[]" and provider = "[]"]
  show ?thesis
    by (cases "runStartCommand pluginNoAuth startArgs alice ''team sync''")
       (simp add: defs)
qed

section \<open>Properties of runConnectCommand\<close>

lemma runConnectCommand_account:
  assumes "canConnect p user"
    and "SiteURL (ServiceSettings (GetConfig p)) = Some siteURL"
    and "AccountLevelApp (configuration p)"
    and "\<not> (snd (getSuperuserToken p) = None \<and> fst (getSuperuserToken p) \<noteq> None)"
  shows "runConnectCommand p user extra =
           ((case storeOAuthUserState p (user_Id user) (args_ChannelId extra) True of
               Some appErr \<Rightarrow> Inr ([], Some (Wrap (FromAppError appErr) ''cannot store state''))
             | None \<Rightarrow> Inr (OAuthPrompt p siteURL, None)),
            [Call_GetConfig, Call_getSuperuserToken,
             Call_storeOAuthUserState (user_Id user) (args_ChannelId extra) True])"
  using assms
  by (cases "getSuperuserToken p")
     (auto simp add: runConnectCommand_def split: option.splits)

lemma runConnectCommand_user:
  assumes "canConnect p user"
    and "SiteURL (ServiceSettings (GetConfig p)) = Some siteURL"
    and "\<not> AccountLevelApp (configuration p)"
    and "snd (fetchOAuthUserInfo p (zoomUserByMMID p) (user_Id user)) \<noteq> None"
  shows "runConnectCommand p user extra =
           ((case storeOAuthUserState p (user_Id user) (args_ChannelId extra) True of
               Some appErr \<Rightarrow> Inr ([], Some (Wrap (FromAppError appErr) ''cannot store state''))
             | None \<Rightarrow> Inr (OAuthPrompt p siteURL, None)),
            [Call_GetConfig, Call_fetchOAuthUserInfo (zoomUserByMMID p) (user_Id user),
             Call_storeOAuthUserState (user_Id user) (args_ChannelId extra) True])"
  using assms
  by (cases "fetchOAuthUserInfo p (zoomUserByMMID p) (user_Id user)")
     (auto simp add: runConnectCommand_def split: option.splits)

text \<open>The calls of \<open>runConnectCommand\<close>, path by path.\<close>

lemma runConnectCommand_calls:
  "snd (runConnectCommand p user extra) \<in>
     {[], [Call_GetConfig], [Call_GetConfig, Call_getSuperuserToken],
      [Call_GetConfig, Call_getSuperuserToken,
       Call_storeOAuthUserState (user_Id user) (args_ChannelId extra) True],
      [Call_GetConfig, Call_fetchOAuthUserInfo (zoomUserByMMID p) (user_Id user)],
      [Call_GetConfig, Call_fetchOAuthUserInfo (zoomUserByMMID p) (user_Id user),
       Call_storeOAuthUserState (user_Id user) (args_ChannelId extra) True]}"
  by (simp add: runConnectCommand_def split: option.splits prod.splits)

lemma decide_no_store:
  "filter is_storeOAuthUserState (snd (runStartCommand_decide p args user zoomUser)) = []"
  by (simp add: runStartCommand_decide_def split: option.splits prod.splits)

lemma post_no_store:
  "filter is_storeOAuthUserState (snd (runStartCommand_post p args user m e)) = []"
  by (simp add: runStartCommand_post_def split: option.splits)

lemma runStartCommand_store_flag:
  "filter is_storeOAuthUserState (snd (runStartCommand p args user topic)) \<in>
     {[], [Call_storeOAuthUserState (user_Id user) (args_ChannelId args) False]}"
  by (simp add: runStartCommand_unfold decide_no_store post_no_store
      split: option.splits sum.splits)

text \<open>
  Claim C6, as the code has it. In \<open>runStartCommand\<close> a failure of
  \<^verbatim>\<open>storeOAuthUserState\<close> is only logged: whatever the store answers, the command
  returns the same message and error and makes the same calls, the log line apart. In
  \<open>runConnectCommand\<close>, on either path that stores the pending connection, a failure
  of the store is returned: the message is empty and the error is the store's error
  wrapped as "cannot store state"; the OAuth prompt with no error is returned only
  when the store succeeds.
\<close>

theorem storeOAuthUserState_failure:
  "fst (runStartCommand (p\<lparr>storeOAuthUserState := f\<rparr>) args user topic)
     = fst (runStartCommand p args user topic)
   \<and> filter (\<lambda>c. \<not> is_LogWarn c)
        (snd (runStartCommand (p\<lparr>storeOAuthUserState := f\<rparr>) args user topic))
     = filter (\<lambda>c. \<not> is_LogWarn c) (snd (runStartCommand p args user topic))
   \<and> (canConnect p user \<and> SiteURL (ServiceSettings (GetConfig p)) = Some siteURL
        \<and> ((AccountLevelApp (configuration p)
              \<and> \<not> (snd (getSuperuserToken p) = None \<and> fst (getSuperuserToken p) \<noteq> None))
            \<or> (\<not> AccountLevelApp (configuration p)
              \<and> snd (fetchOAuthUserInfo p (zoomUserByMMID p) (user_Id user)) \<noteq> None)) \<longrightarrow>
        (storeOAuthUserState p (user_Id user) (args_ChannelId extra) True = Some appErr \<longrightarrow>
           fst (runConnectCommand p user extra)
             = Inr ([], Some (Wrap (FromAppError appErr) ''cannot store state'')))
      \<and> (storeOAuthUserState p (user_Id user) (args_ChannelId extra) True = None \<longrightarrow>
           fst (runConnectCommand p user extra) = Inr (OAuthPrompt p siteURL, None)))"
proof (intro conjI impI)
  show "fst (runStartCommand (p\<lparr>storeOAuthUserState := f\<rparr>) args user topic)
          = fst (runStartCommand p args user topic)"
    by (rule runStartCommand_store_answer)
  show "filter (\<lambda>c. \<not> is_LogWarn c)
          (snd (runStartCommand (p\<lparr>storeOAuthUserState := f\<rparr>) args user topic))
        = filter (\<lambda>c. \<not> is_LogWarn c) (snd (runStartCommand p args user topic))"
    by (rule runStartCommand_store_calls)
next
  assume h: "canConnect p user \<and> SiteURL (ServiceSettings (GetConfig p)) = Some siteURL
        \<and> ((AccountLevelApp (configuration p)
              \<and> \<not> (snd (getSuperuserToken p) = None \<and> fst (getSuperuserToken p) \<noteq> None))
            \<or> (\<not> AccountLevelApp (configuration p)
              \<and> snd (fetchOAuthUserInfo p (zoomUserByMMID p) (user_Id user)) \<noteq> None))"
    and st: "storeOAuthUserState p (user_Id user) (args_ChannelId extra) True = Some appErr"
  from h st show "fst (runConnectCommand p user extra)
             = Inr ([], Some (Wrap (FromAppError appErr) ''cannot store state''))"
    by (auto simp add: runConnectCommand_account runConnectCommand_user)
next
  assume h: "canConnect p user \<and> SiteURL (ServiceSettings (GetConfig p)) = Some siteURL
        \<and> ((AccountLevelApp (configuration p)
              \<and> \<not> (snd (getSuperuserToken p) = None \<and> fst (getSuperuserToken p) \<noteq> None))
            \<or> (\<not> AccountLevelApp (configuration p)
              \<and> snd (fetchOAuthUserInfo p (zoomUserByMMID p) (user_Id user)) \<noteq> None))"
    and st: "storeOAuthUserState p (user_Id user) (args_ChannelId extra) True = None"
  from h st show "fst (runConnectCommand p user extra) = Inr (OAuthPrompt p siteURL, None)"
    by (auto simp add: runConnectCommand_account runConnectCommand_user)
qed

theorem storeOAuthUserState_failure_witness:
  "fst (runStartCommand pluginNoAuth startArgs alice ''team sync'')
     = fst (runStartCommand (pluginNoAuth\<lparr>storeOAuthUserState := (\<lambda>uid cid flag. None)\<rparr>)
              startArgs alice ''team sync'')
   \<and> canConnect pluginStoreDown alice
   \<and> \<not> AccountLevelApp (configuration pluginStoreDown)
   \<and> fst (runConnectCommand pluginStoreDown alice startArgs)
       = Inr ([], Some (Wrap (FromAppError (AppError ''store down'')) ''cannot store state''))
   \<and> canConnect pluginAccount admin
   \<and> AccountLevelApp (configuration pluginAccount)
   \<and> fst (runConnectCommand pluginAccount admin startArgs)
       = Inr (''Connect: https://chat.example'', None)"
  using
    storeOAuthUserState_failure [where p = pluginNoAuth and f = "\<lambda>uid cid flag. None"
      and args = startArgs and user = alice and topic = "''team sync''"
      and siteURL = "''https://chat.example''" and extra = startArgs
      and appErr = "AppError ''store down''"]
    storeOAuthUserState_failure [where p = pluginStoreDown and f = "\<lambda>uid cid flag. None"
      and args = startArgs and user = alice and topic = "''team sync''"
      and siteURL = "''https://chat.example''" and extra = startArgs
      and appErr = "AppError ''store down''"]
    storeOAuthUserState_failure [where p = pluginAccount and f = "\<lambda>uid cid flag. None"
      and args = startArgs and user = admin and topic = "''team sync''"
      and siteURL = "''https://chat.example''" and extra = startArgs
      and appErr = "AppError ''store down''"]
  by (simp add: pluginNoAuth_def pluginStoreDown_def pluginAccount_def plugin0_def
      startArgs_def alice_def admin_def canConnect_def)

text \<open>The claim as the specification states it fails on both paths of
  \<open>runConnectCommand\<close>: with the store failing, the command returns an empty message and
  an error instead of the prompt it returns when the store succeeds.\<close>

theorem storeOAuthUserState_failure_counterexample:
  "fst (runConnectCommand plugin0 alice startArgs)
     = Inr (''Connect: https://chat.example'', None)
   \<and> fst (runConnectCommand
            (plugin0\<lparr>storeOAuthUserState := (\<lambda>uid cid flag. Some (AppError ''store down''))\<rparr>)
            alice startArgs)
     = Inr ([], Some (Wrap (FromAppError (AppError ''store down'')) ''cannot store state''))
   \<and> fst (runConnectCommand pluginAccount admin startArgs)
     = Inr (''Connect: https://chat.example'', None)
   \<and> fst (runConnectCommand
            (pluginAccount\<lparr>storeOAuthUserState := (\<lambda>uid cid flag. Some (AppError ''store down''))\<rparr>)
            admin startArgs)
     = Inr ([], Some (Wrap (FromAppError (AppError ''store down'')) ''cannot store state''))"
  by (simp add: runConnectCommand_def canConnect_def pluginAccount_def plugin0_def
      startArgs_def alice_def admin_def)

text \<open>
  Claim C10. \<open>runConnectCommand\<close> stores the pending connection with the flag true
  on the account-level path and on the user-level path alike, and stores nothing with
  another flag; \<open>runStartCommand\<close> stores it, at its auth guard, with the flag false,
  and stores nothing with another flag. The flag tells which command began the flow,
  not whether the deployment is account-level.
\<close>

theorem storeOAuthUserState_flag:
  "(canConnect p user \<and> SiteURL (ServiceSettings (GetConfig p)) = Some siteURL
      \<and> AccountLevelApp (configuration p)
      \<and> \<not> (snd (getSuperuserToken p) = None \<and> fst (getSuperuserToken p) \<noteq> None) \<longrightarrow>
      filter is_storeOAuthUserState (snd (runConnectCommand p user extra))
        = [Call_storeOAuthUserState (user_Id user) (args_ChannelId extra) True])
   \<and> (canConnect p user \<and> SiteURL (ServiceSettings (GetConfig p)) = Some siteURL
      \<and> \<not> AccountLevelApp (configuration p)
      \<and> snd (fetchOAuthUserInfo p (zoomUserByMMID p) (user_Id user)) \<noteq> None \<longrightarrow>
      filter is_storeOAuthUserState (snd (runConnectCommand p user extra))
        = [Call_storeOAuthUserState (user_Id user) (args_ChannelId extra) True])
   \<and> filter is_storeOAuthUserState (snd (runConnectCommand p user extra))
        \<in> {[], [Call_storeOAuthUserState (user_Id user) (args_ChannelId extra) True]}
   \<and> (GetChannelMember p (args_ChannelId args) (user_Id user) = None
      \<and> checkPreviousMessages p (args_ChannelId args) = (False, link, creator, provider, None)
      \<and> authenticateAndFetchZoomUser p user = Inl authErr \<longrightarrow>
      filter is_storeOAuthUserState (snd (runStartCommand p args user topic))
        = [Call_storeOAuthUserState (user_Id user) (args_ChannelId args) False])
   \<and> filter is_storeOAuthUserState (snd (runStartCommand p args user topic))
        \<in> {[], [Call_storeOAuthUserState (user_Id user) (args_ChannelId args) False]}"
proof (intro conjI impI)
  show "filter is_storeOAuthUserState (snd (runStartCommand p args user topic))
        \<in> {[], [Call_storeOAuthUserState (user_Id user) (args_ChannelId args) False]}"
    by (rule runStartCommand_store_flag)
  show "filter is_storeOAuthUserState (snd (runConnectCommand p user extra))
        \<in> {[], [Call_storeOAuthUserState (user_Id user) (args_ChannelId extra) True]}"
    using runConnectCommand_calls [of p user extra] by auto
next
  assume "canConnect p user \<and> SiteURL (ServiceSettings (GetConfig p)) = Some siteURL
      \<and> AccountLevelApp (configuration p)
      \<and> \<not> (snd (getSuperuserToken p) = None \<and> fst (getSuperuserToken p) \<noteq> None)"
  then show "filter is_storeOAuthUserState (snd (runConnectCommand p user extra))
        = [Call_storeOAuthUserState (user_Id user) (args_ChannelId extra) True]"
    by (simp add: runConnectCommand_account)
next
  assume "canConnect p user \<and> SiteURL (ServiceSettings (GetConfig p)) = Some siteURL
      \<and> \<not> AccountLevelApp (configuration p)
      \<and> snd (fetchOAuthUserInfo p (zoomUserByMMID p) (user_Id user)) \<noteq> None"
  then show "filter is_storeOAuthUserState (snd (runConnectCommand p user extra))
        = [Call_storeOAuthUserState (user_Id user) (args_ChannelId extra) True]"
    by (simp add: runConnectCommand_user)
next
  assume "GetChannelMember p (args_ChannelId args) (user_Id user) = None
      \<and> checkPreviousMessages p (args_ChannelId args) = (False, link, creator, provider, None)
      \<and> authenticateAndFetchZoomUser p user = Inl authErr"
  then show "filter is_storeOAuthUserState (snd (runStartCommand p args user topic))
        = [Call_storeOAuthUserState (user_Id user) (args_ChannelId args) False]"
    by (simp add: runStartCommand_def split: option.splits)
qed

theorem storeOAuthUserState_flag_witness:
  "canConnect pluginAccount admin \<and> AccountLevelApp (configuration pluginAccount)
   \<and> filter is_storeOAuthUserState (snd (runConnectCommand pluginAccount admin startArgs))
       = [Call_storeOAuthUserState ''u0'' ''c1'' True]
   \<and> canConnect plugin0 alice \<and> \<not> AccountLevelApp (configuration plugin0)
   \<and> filter is_storeOAuthUserState (snd (runConnectCommand plugin0 alice startArgs))
       = [Call_storeOAuthUserState ''u1'' ''c1'' True]
   \<and> authenticateAndFetchZoomUser pluginNoAuth alice
       = Inl \<lparr>auth_Message = ''Please connect'', auth_Err = Some (New ''not connected'')\<rparr>
   \<and> filter is_storeOAuthUserState (snd (runStartCommand pluginNoAuth startArgs alice ''team sync''))
       = [Call_storeOAuthUserState ''u1'' ''c1'' False]"
  using
    storeOAuthUserState_flag [where p = pluginAccount and user = admin and extra = startArgs
      and siteURL = "''https://chat.example''" and args = startArgs
      and topic = "''team sync''" and link = "[]" and creator = "[]" and provider = "[]"
      and authErr = "\<lparr>auth_Message = ''Please connect'',
                        auth_Err = Some (New ''not connected'')\<rparr>"]
    storeOAuthUserState_flag [where p = plugin0 and user = alice and extra = startArgs
      and siteURL = "''https://chat.example''" and args = startArgs
      and topic = "''team sync''" and link = "[]" and creator = "[]" and provider = "[]"
      and authErr = "\<lparr>auth_Message = ''Please connect'',
                        auth_Err = Some (New ''not connected'')\<rparr>"]
    storeOAuthUserState_flag [where p = pluginNoAuth and user = alice and extra = startArgs
      and siteURL = "''https://chat.example''" and args = startArgs
      and topic = "''team sync''" and link = "[]" and creator = "[]" and provider = "[]"
      and authErr = "\<lparr>auth_Message = ''Please connect'',
                        auth_Err = Some (New ''not connected'')\<rparr>"]
  by (simp add: pluginNoAuth_def pluginAccount_def plugin0_def
      startArgs_def alice_def admin_def canConnect_def)

section \<open>Properties of runPMISettingCommand\<close>

text \<open>
  Claim C9. For a value other than "true", "false" and "ask" (such as "foo"),
  \<open>runPMISettingCommand\<close> returns the message "Unknown setting option" followed by the
  value, no error, and writes nothing: it makes no call at all. For "true" it makes
  exactly one call, the write of the preference with category "plugin:zoom", name
  "use-pmi" and value "true" for the user; when the write succeeds the message is
  "Update successfully, use_pmi: true", which contains "true". When the write of an
  accepted value fails, the message is the fixed text "Cannot update preference in zoom
  setting" and the error is nil.
\<close>

theorem runPMISettingCommand_cases:
  "(usePMIValue \<noteq> ''true'' \<and> usePMIValue \<noteq> ''false'' \<and> usePMIValue \<noteq> ''ask'' \<longrightarrow>
      runPMISettingCommand p usePMIValue user
        = ((''Unknown setting option '' @ usePMIValue, None), []))
   \<and> snd (runPMISettingCommand p ''true'' user)
       = [Call_UpdatePreferencesForUser (user_Id user)
            [\<lparr>pref_UserId = user_Id user, pref_Category = ''plugin:zoom'',
              pref_Name = ''use-pmi'', pref_Value = ''true''\<rparr>]]
   \<and> (UpdatePreferencesForUser p (user_Id user)
          [\<lparr>pref_UserId = user_Id user, pref_Category = ''plugin:zoom'',
            pref_Name = ''use-pmi'', pref_Value = ''true''\<rparr>] = None \<longrightarrow>
        fst (runPMISettingCommand p ''true'' user)
          = (''Update successfully, use_pmi: true'', None)
      \<and> sublist ''true'' (fst (fst (runPMISettingCommand p ''true'' user))))
   \<and> ((usePMIValue = ''true'' \<or> usePMIValue = ''false'' \<or> usePMIValue = ''ask'')
      \<and> UpdatePreferencesForUser p (user_Id user)
          [\<lparr>pref_UserId = user_Id user, pref_Category = ''plugin:zoom'',
            pref_Name = ''use-pmi'', pref_Value = usePMIValue\<rparr>] = Some appError \<longrightarrow>
        runPMISettingCommand p usePMIValue user
          = ((''Cannot update preference in zoom setting'', None),
             [Call_UpdatePreferencesForUser (user_Id user)
                [\<lparr>pref_UserId = user_Id user, pref_Category = ''plugin:zoom'',
                  pref_Name = ''use-pmi'', pref_Value = usePMIValue\<rparr>]]))"
proof -
  note defs = runPMISettingCommand_def trueString_def falseString_def
    zoomPMISettingValueAsk_def zoomPreferenceCategory_def zoomPMISettingName_def
    preferenceUpdateError_def
  have unknown: "usePMIValue \<noteq> ''true'' \<and> usePMIValue \<noteq> ''false'' \<and> usePMIValue \<noteq> ''ask'' \<longrightarrow>
      runPMISettingCommand p usePMIValue user
        = ((''Unknown setting option '' @ usePMIValue, None), [])"
    by (simp add: defs)
  have calls: "snd (runPMISettingCommand p ''true'' user)
       = [Call_UpdatePreferencesForUser (user_Id user)
            [\<lparr>pref_UserId = user_Id user, pref_Category = ''plugin:zoom'',
              pref_Name = ''use-pmi'', pref_Value = ''true''\<rparr>]]"
    by (simp add: defs split: option.splits)
  have "sublist ''true'' (''Update successfully, use_pmi: '' @ ''true'' @ [])"
    by (rule sublist_appendI)
  then have sub: "sublist ''true'' ''Update successfully, use_pmi: true''"
    by simp
  have ok: "UpdatePreferencesForUser p (user_Id user)
          [\<lparr>pref_UserId = user_Id user, pref_Category = ''plugin:zoom'',
            pref_Name = ''use-pmi'', pref_Value = ''true''\<rparr>] = None \<longrightarrow>
        fst (runPMISettingCommand p ''true'' user)
          = (''Update successfully, use_pmi: true'', None)
      \<and> sublist ''true'' (fst (fst (runPMISettingCommand p ''true'' user)))"
    using sub by (simp add: defs)
  have failed: "(usePMIValue = ''true'' \<or> usePMIValue = ''false'' \<or> usePMIValue = ''ask'')
      \<and> UpdatePreferencesForUser p (user_Id user)
          [\<lparr>pref_UserId = user_Id user, pref_Category = ''plugin:zoom'',
            pref_Name = ''use-pmi'', pref_Value = usePMIValue\<rparr>] = Some appError \<longrightarrow>
        runPMISettingCommand p usePMIValue user
          = ((''Cannot update preference in zoom setting'', None),
             [Call_UpdatePreferencesForUser (user_Id user)
                [\<lparr>pref_UserId = user_Id user, pref_Category = ''plugin:zoom'',
                  pref_Name = ''use-pmi'', pref_Value = usePMIValue\<rparr>]])"
    by (auto simp add: defs)
  from unknown calls ok failed show ?thesis by blast
qed

theorem runPMISettingCommand_cases_witness:
  "runPMISettingCommand plugin0 ''foo'' alice = ((''Unknown setting option foo'', None), [])
   \<and> runPMISettingCommand plugin0 ''true'' alice
       = ((''Update successfully, use_pmi: true'', None),
          [Call_UpdatePreferencesForUser ''u1''
             [\<lparr>pref_UserId = ''u1'', pref_Category = ''plugin:zoom'',
               pref_Name = ''use-pmi'', pref_Value = ''true''\<rparr>]])
   \<and> runPMISettingCommand
         (plugin0\<lparr>UpdatePreferencesForUser := (\<lambda>uid prefs. Some (AppError ''down''))\<rparr>)
         ''ask'' alice
       = ((''Cannot update preference in zoom setting'', None),
          [Call_UpdatePreferencesForUser ''u1''
             [\<lparr>pref_UserId = ''u1'', pref_Category = ''plugin:zoom'',
               pref_Name = ''use-pmi'', pref_Value = ''ask''\<rparr>]])"
  using
    runPMISettingCommand_cases [where p = plugin0 and usePMIValue = "''foo''" and user = alice
      and appError = "AppError ''down''"]
    runPMISettingCommand_cases
      [where p = "plugin0\<lparr>UpdatePreferencesForUser := (\<lambda>uid prefs. Some (AppError ''down''))\<rparr>"
       and usePMIValue = "''ask''" and user = alice and appError = "AppError ''down''"]
  by (cases "runPMISettingCommand plugin0 ''true'' alice")
     (simp add: plugin0_def alice_def)

section \<open>The command "/zoom start team sync", end to end\<close>

text \<open>
  Claim C4. For the command "/zoom start team sync" of a connected user, with the
  stored preference "false", no recent meeting and every call succeeding (the provider
  answers with a meeting id other than the sentinel and no error):
  \<open>parseCommand\<close> reads the topic "team sync"; the provider is asked exactly once to
  create a meeting, with the constant default topic and not with the topic of the
  command (the run is the same for every topic); exactly one announcement is posted;
  exactly one telemetry event is sent, tagged "command"; and \<open>runStartCommand\<close>, and
  with it \<open>executeCommand\<close>, returns the empty message and no error.
\<close>

theorem executeCommand_start_team_sync:
  assumes "args_Command args = ''/zoom start team sync''"
    and "GetUser p (args_UserId args) = Inr user"
    and "GetChannelMember p (args_ChannelId args) (user_Id user) = None"
    and "checkPreviousMessages p (args_ChannelId args) = (False, link, creator, provider, None)"
    and "authenticateAndFetchZoomUser p user = Inr zoomUser"
    and "getPMISettingData p (user_Id user) = (''false'', None)"
    and "createMeetingWithoutPMI p user zoomUser (args_ChannelId args) (defaultMeetingTopic p)
           = (meetingID, None)"
    and "meetingID \<noteq> - 1"
    and "postMeeting p user meetingID (args_ChannelId args) (args_RootId args)
           (defaultMeetingTopic p) = None"
  shows "parseCommand (args_Command args) = Inr (''/zoom'', ''start'', ''team sync'')
       \<and> runStartCommand p args user ''team sync''
           = (([], None),
              [Call_GetChannelMember (args_ChannelId args) (user_Id user),
               Call_checkPreviousMessages (args_ChannelId args),
               Call_authenticateAndFetchZoomUser user,
               Call_getPMISettingData (user_Id user),
               Call_createMeetingWithoutPMI user zoomUser (args_ChannelId args)
                 (defaultMeetingTopic p),
               Call_postMeeting user meetingID (args_ChannelId args) (args_RootId args)
                 (defaultMeetingTopic p),
               Call_trackMeetingStart (args_UserId args) ''command''])
       \<and> runStartCommand p args user topic = runStartCommand p args user ''team sync''
       \<and> executeCommand p args
           = (Inr ([], None),
              Call_GetUser (args_UserId args) # snd (runStartCommand p args user ''team sync''))
       \<and> filter is_createMeetingWithoutPMI (snd (executeCommand p args))
           = [Call_createMeetingWithoutPMI user zoomUser (args_ChannelId args)
                (defaultMeetingTopic p)]
       \<and> filter is_postMeeting (snd (executeCommand p args))
           = [Call_postMeeting user meetingID (args_ChannelId args) (args_RootId args)
                (defaultMeetingTopic p)]
       \<and> filter is_trackMeetingStart (snd (executeCommand p args))
           = [Call_trackMeetingStart (args_UserId args) ''command'']"
proof -
  have parse: "parseCommand (args_Command args) = Inr (''/zoom'', ''start'', ''team sync'')"
    by (simp add: assms(1) parseCommand_example)
  have decide: "runStartCommand_decide p args user zoomUser
      = ((meetingID, None),
         [Call_getPMISettingData (user_Id user),
          Call_createMeetingWithoutPMI user zoomUser (args_ChannelId args)
            (defaultMeetingTopic p)])"
    using decide_other [OF assms(6), of args zoomUser] assms(7) by simp
  have post: "runStartCommand_post p args user meetingID None
      = (([], None),
         [Call_postMeeting user meetingID (args_ChannelId args) (args_RootId args)
            (defaultMeetingTopic p),
          Call_trackMeetingStart (args_UserId args) ''command''])"
    using assms(8,9)
    by (simp add: runStartCommand_post_def telemetryStartSourceCommand_def)
  have run: "runStartCommand p args user t
           = (([], None),
              [Call_GetChannelMember (args_ChannelId args) (user_Id user),
               Call_checkPreviousMessages (args_ChannelId args),
               Call_authenticateAndFetchZoomUser user,
               Call_getPMISettingData (user_Id user),
               Call_createMeetingWithoutPMI user zoomUser (args_ChannelId args)
                 (defaultMeetingTopic p),
               Call_postMeeting user meetingID (args_ChannelId args) (args_RootId args)
                 (defaultMeetingTopic p),
               Call_trackMeetingStart (args_UserId args) ''command''])" for t
    by (simp add: runStartCommand_past_guards [OF assms(3,4,5)] decide post)
  have exec: "executeCommand p args
           = (Inr ([], None),
              Call_GetUser (args_UserId args) # snd (runStartCommand p args user ''team sync''))"
    by (simp add: executeCommand_def parse assms(2) run actionConnect_def actionStart_def)
  show ?thesis
    by (simp add: parse run exec)
qed

theorem executeCommand_start_team_sync_witness:
  "args_Command startArgs = ''/zoom start team sync''
   \<and> getPMISettingData plugin0 (user_Id alice) = (''false'', None)
   \<and> createMeetingWithoutPMI plugin0 alice aliceZoom ''c1'' ''Zoom Meeting'' = (77, None)
   \<and> executeCommand plugin0 startArgs
       = (Inr ([], None),
          [Call_GetUser ''u1'', Call_GetChannelMember ''c1'' ''u1'',
           Call_checkPreviousMessages ''c1'', Call_authenticateAndFetchZoomUser alice,
           Call_getPMISettingData ''u1'',
           Call_createMeetingWithoutPMI alice aliceZoom ''c1'' ''Zoom Meeting'',
           Call_postMeeting alice 77 ''c1'' ''r1'' ''Zoom Meeting'',
           Call_trackMeetingStart ''u1'' ''command''])"
proof -
  note defs = plugin0_def startArgs_def alice_def aliceZoom_def
  have h:
    "args_Command startArgs = ''/zoom start team sync''"
    "GetUser plugin0 (args_UserId startArgs) = Inr alice"
    "GetChannelMember plugin0 (args_ChannelId startArgs) (user_Id alice) = None"
    "checkPreviousMessages plugin0 (args_ChannelId startArgs) = (False, [], [], [], None)"
    "authenticateAndFetchZoomUser plugin0 alice = Inr aliceZoom"
    "getPMISettingData plugin0 (user_Id alice) = (''false'', None)"
    "createMeetingWithoutPMI plugin0 alice aliceZoom (args_ChannelId startArgs)
       (defaultMeetingTopic plugin0) = (77, None)"
    "(77::int) \<noteq> - 1"
    "postMeeting plugin0 alice 77 (args_ChannelId startArgs) (args_RootId startArgs)
       (defaultMeetingTopic plugin0) = None"
    by (simp_all add: defs)
  from executeCommand_start_team_sync [OF h, where topic = "[]"]
  show ?thesis
    by (simp add: defs)
qed

end
